theory Spec2Isabelle
  imports Main
begin

section \<open>Users and branch-scoped query filtering (Core/views.py)\<close>

text \<open>
  Primary keys are Python integers. A user carries the attributes the helpers read with
  \<open>getattr\<close>: \<open>is_superuser\<close> (default \<open>False\<close>), \<open>rol\<close> (default \<open>None\<close>, which is
  what an anonymous user yields) and \<open>sucursal_id\<close> (nullable foreign key).
\<close>

record usuario =
  user_id :: int
  is_superuser :: bool
  rol :: "string option"
  sucursal_id :: "int option"

definition roles_con_sucursal :: "string set" where
  "roles_con_sucursal = {''ADMIN'', ''ADMIN_OP'', ''VET''}"

text \<open>
  Python truthiness of an optional integer, as in \<open>if not sucursal_id\<close>: both \<open>None\<close>
  and \<open>0\<close> are falsy.
\<close>

definition truthy_id :: "int option \<Rightarrow> bool" where
  "truthy_id x = (case x of None \<Rightarrow> False | Some i \<Rightarrow> i \<noteq> 0)"

text \<open>
  A queryset is the list of the rows it yields. \<open>campo\<close> gives, for a row, the values
  of the column \<open>{field_name}_id\<close> the lookup reaches from it: for a foreign key of the
  row itself, no value (NULL) or one; for a lookup that spans a to-many relation (such as
  \<open>cita__sucursal\<close> on a patient), one value per related row. \<open>queryset.none()\<close> is
  the empty list, and \<open>queryset.filter(campo=s)\<close> joins the relation: it yields a row
  once for each related value equal to \<open>s\<close>.
\<close>

definition queryset_filter :: "('row \<Rightarrow> int list) \<Rightarrow> int \<Rightarrow> 'row list \<Rightarrow> 'row list" where
  "queryset_filter campo s queryset =
     concat (map (\<lambda>fila. replicate (count_list (campo fila) s) fila) queryset)"

definition filtrar_por_sucursal :: "'row list \<Rightarrow> usuario \<Rightarrow> ('row \<Rightarrow> int list) \<Rightarrow> 'row list" where
  "filtrar_por_sucursal queryset user campo =
     (if is_superuser user then queryset
      else if (case rol user of None \<Rightarrow> True | Some r \<Rightarrow> r \<notin> roles_con_sucursal) then queryset
      else if \<not> truthy_id (sucursal_id user) then []
      else (case sucursal_id user of
              None \<Rightarrow> []
            | Some s \<Rightarrow> queryset_filter campo s queryset))"

definition usuario_puede_gestionar_sucursal :: "usuario \<Rightarrow> int option \<Rightarrow> bool" where
  "usuario_puede_gestionar_sucursal user sid =
     (if is_superuser user then True
      else if (case rol user of None \<Rightarrow> True | Some r \<Rightarrow> r \<notin> roles_con_sucursal) then False
      else sid \<noteq> None \<and> sid = sucursal_id user)"


section \<open>Contact telephone numbers (Core/models.py)\<close>

text \<open>
  Python strings are sequences of Unicode code points, and \<open>str.isdigit\<close> and the
  whitespace test of \<open>str.strip\<close> are defined by the Unicode database. The functions
  below are therefore polymorphic in the character type and take the two character
  classes as parameters.
\<close>

definition strip :: "('c \<Rightarrow> bool) \<Rightarrow> 'c list \<Rightarrow> 'c list" where
  "strip isspace s = rev (dropWhile isspace (rev (dropWhile isspace s)))"

definition telefono_contacto ::
  "('c \<Rightarrow> bool) \<Rightarrow> ('c \<Rightarrow> bool) \<Rightarrow> 'c list \<Rightarrow> 'c list \<Rightarrow> 'c list" where
  "telefono_contacto isspace isdigit propietario_telefono user_telefono =
     (let telefono = (if propietario_telefono \<noteq> [] then propietario_telefono
                      else if user_telefono \<noteq> [] then user_telefono
                      else []);
          telefono = strip isspace telefono
      in if telefono = [] then [] else filter isdigit telefono)"

definition telefono_whatsapp ::
  "('c \<Rightarrow> bool) \<Rightarrow> ('c \<Rightarrow> bool) \<Rightarrow> 'c list option \<Rightarrow> 'c list" where
  "telefono_whatsapp isspace isdigit producto_telefono_contacto =
     (let telefono = strip isspace
            (case producto_telefono_contacto of None \<Rightarrow> [] | Some t \<Rightarrow> if t \<noteq> [] then t else [])
      in filter isdigit telefono)"

text \<open>ASCII instances of the two character classes, used to run the functions.\<close>

definition ascii_isdigit :: "char \<Rightarrow> bool" where
  "ascii_isdigit c = (c \<in> set ''0123456789'')"

definition ascii_isspace :: "char \<Rightarrow> bool" where
  "ascii_isspace c = (c \<in> {CHR '' '', CHR 0x09, CHR 0x0A, CHR 0x0B, CHR 0x0C, CHR 0x0D})"


section \<open>Report exports: \<open>_excel_sections_response\<close> (Core/views.py)\<close>






definition digit_char :: "nat \<Rightarrow> char" where
  "digit_char d = ''0123456789'' ! (d mod 10)"

function str_nat :: "nat \<Rightarrow> string" where
  "str_nat n = (if n < 10 then [digit_char n] else str_nat (n div 10) @ [digit_char (n mod 10)])"
  by pat_completeness auto
termination
  by (relation "measure id") auto

declare str_nat.simps [simp del]























section \<open>Visit completion: the data \<open>atender_cita\<close> works on (Core/models.py)\<close>

text \<open>
  The tables the view reads and writes. \<open>Cita\<close> and \<open>Farmaco\<close> are looked up by primary
  key, so they are maps from the key; \<open>CitaFarmaco\<close> and \<open>HistorialMedico\<close> are scanned,
  so they are lists of rows. A \<open>CitaFarmaco\<close> row is identified by its pair
  (cita, farmaco), which \<open>unique_together\<close> declares unique; where a property needs that
  constraint it is stated as the hypothesis \<open>unique_together\<close> below. Integers are
  Python's unbounded integers; timestamps (\<open>auto_now\<close>) are left out.
\<close>

record cita =
  cita_paciente_id :: int
  cita_veterinario_id :: "int option"
  cita_sucursal_id :: int
  cita_estado :: string

record farmaco =
  farmaco_sucursal_id :: int
  farmaco_nombre :: string
  farmaco_stock :: int

record cita_farmaco =
  cf_cita_id :: int
  cf_farmaco_id :: int
  cf_cantidad :: int

record historial_medico =
  hm_cita_id :: "int option"
  hm_paciente_id :: int
  hm_veterinario_id :: "int option"
  hm_diagnostico :: "string option"
  hm_tratamiento :: "string option"
  hm_notas :: "string option"
  hm_peso :: "string option"
  hm_temperatura :: "string option"
  hm_examenes :: "string option"
  hm_imagenes :: "string option"
  hm_proximo_control :: "string option"
  hm_sin_proximo_control :: bool

record db =
  citas :: "int \<rightharpoonup> cita"
  farmacos :: "int \<rightharpoonup> farmaco"
  cita_farmacos :: "cita_farmaco list"
  historiales :: "historial_medico list"

definition unique_together :: "cita_farmaco list \<Rightarrow> bool" where
  "unique_together rows = distinct (map (\<lambda>r. (cf_cita_id r, cf_farmaco_id r)) rows)"

text \<open>
  The dictionary \<open>historial_defaults\<close>; the key \<open>imagenes\<close> is present only when a study
  image is attached (\<open>None\<close> is the absent key).
\<close>

record historial_defaults =
  d_paciente_id :: int
  d_veterinario_id :: int
  d_diagnostico :: "string option"
  d_tratamiento :: "string option"
  d_notas :: "string option"
  d_peso :: "string option"
  d_temperatura :: "string option"
  d_examenes :: "string option"
  d_proximo_control :: "string option"
  d_sin_proximo_control :: bool
  d_imagenes :: "string option"

text \<open>
  The request. Each entry of \<open>farmacos_utilizados\<close> is represented by the outcome of
  \<open>entrada.split("::", 1)\<close> followed by the two \<open>int(...)\<close> conversions: \<open>Entrada fid n\<close>
  when they succeed, \<open>Malformada\<close> when one of them raises \<open>ValueError\<close>. The decorator
  \<open>login_required\<close> guarantees an authenticated user.
\<close>

datatype entrada = Entrada int int | Malformada

record request =
  req_method :: string
  req_user :: usuario
  post_diagnostico :: "string option"
  post_tratamiento :: "string option"
  post_notas :: "string option"
  post_peso :: "string option"
  post_temperatura :: "string option"
  post_examenes :: "string option"
  post_proximo_control :: "string option"
  post_sin_proximo_control :: "string option"
  post_adjuntar_estudios :: "string option"
  post_utilizo_farmacos :: "string option"
  post_farmacos_utilizados :: "entrada list"
  files_estudio_imagen :: "string option"

datatype mensaje =
    No_tienes_permiso_para_atender
  | Citas_de_otra_sucursal
  | Asignada_a_otro_profesional
  | No_se_pudo_interpretar_la_seleccion
  | Cantidad_mayor_que_cero
  | Selecciona_al_menos_un_farmaco
  | Farmaco_ya_no_pertenece_al_inventario
  | Stock_insuficiente string int
  | Atendida_correctamente

datatype nivel = Nivel_error | Nivel_success

datatype excepcion =
    ValueError mensaje
  | KeyError
  | MultipleObjectsReturned
  | DatabaseError

datatype respuesta =
    Http404
  | Redirect_dashboard
  | Redirect_detalle_cita int
  | Render_atender_cita
  | Excepcion_no_capturada excepcion


section \<open>Visit completion: \<open>atender_cita\<close> (Core/views.py)\<close>

definition truthy_str :: "string option \<Rightarrow> bool" where
  "truthy_str x = (case x of None \<Rightarrow> False | Some s \<Rightarrow> s \<noteq> [])"

definition or_none :: "string option \<Rightarrow> string option" where
  "or_none x = (if truthy_str x then x else None)"

subsection \<open>Python dictionaries\<close>

text \<open>
  A dictionary is an association list with distinct keys in insertion order; storing
  under a key already present replaces the value in place.
\<close>

definition dict_set :: "('k \<times> 'v) list \<Rightarrow> 'k \<Rightarrow> 'v \<Rightarrow> ('k \<times> 'v) list" where
  "dict_set d k v =
     (if k \<in> set (map fst d) then map (\<lambda>kv. if fst kv = k then (k, v) else kv) d
      else d @ [(k, v)])"

definition dict_of :: "('k \<times> 'v) list \<Rightarrow> ('k \<times> 'v) list" where
  "dict_of kvs = foldl (\<lambda>d (k, v). dict_set d k v) [] kvs"

definition dict_get :: "('k \<times> 'v) list \<Rightarrow> 'k \<Rightarrow> 'v option" where
  "dict_get d k = map_of d k"

definition dict_keys :: "('k \<times> 'v) list \<Rightarrow> 'k list" where
  "dict_keys d = map fst d"

subsection \<open>Reading the posted selection\<close>

fun leer_entradas :: "entrada list \<Rightarrow> (int \<times> int) list \<times> mensaje list" where
  "leer_entradas [] = ([], [])"
| "leer_entradas (Malformada # es) =
     (case leer_entradas es of (sel, errs) \<Rightarrow> (sel, No_se_pudo_interpretar_la_seleccion # errs))"
| "leer_entradas (Entrada farmaco_id cantidad # es) =
     (case leer_entradas es of (sel, errs) \<Rightarrow>
        if cantidad \<le> 0 then (sel, Cantidad_mayor_que_cero # errs)
        else ((farmaco_id, cantidad) # sel, errs))"

definition seleccion_post :: "request \<Rightarrow> (int \<times> int) list" where
  "seleccion_post req = fst (leer_entradas (post_farmacos_utilizados req))"

definition mensajes_error :: "request \<Rightarrow> mensaje list" where
  "mensajes_error req =
     snd (leer_entradas (post_farmacos_utilizados req)) @
     (if truthy_str (post_utilizo_farmacos req) \<and> seleccion_post req = []
      then [Selecciona_al_menos_un_farmaco] else [])"

subsection \<open>The medical record\<close>

definition defaults_de :: "request \<Rightarrow> cita \<Rightarrow> historial_defaults" where
  "defaults_de req c =
     \<lparr>d_paciente_id = cita_paciente_id c,
      d_veterinario_id = user_id (req_user req),
      d_diagnostico = post_diagnostico req,
      d_tratamiento = post_tratamiento req,
      d_notas = post_notas req,
      d_peso = or_none (post_peso req),
      d_temperatura = or_none (post_temperatura req),
      d_examenes = post_examenes req,
      d_proximo_control =
        (if truthy_str (post_sin_proximo_control req) then None
         else or_none (post_proximo_control req)),
      d_sin_proximo_control = truthy_str (post_sin_proximo_control req),
      d_imagenes =
        (if truthy_str (post_adjuntar_estudios req) then files_estudio_imagen req else None)\<rparr>"

definition crear_historial :: "int \<Rightarrow> historial_defaults \<Rightarrow> historial_medico" where
  "crear_historial cid d =
     \<lparr>hm_cita_id = Some cid,
      hm_paciente_id = d_paciente_id d,
      hm_veterinario_id = Some (d_veterinario_id d),
      hm_diagnostico = d_diagnostico d,
      hm_tratamiento = d_tratamiento d,
      hm_notas = d_notas d,
      hm_peso = d_peso d,
      hm_temperatura = d_temperatura d,
      hm_examenes = d_examenes d,
      hm_imagenes = d_imagenes d,
      hm_proximo_control = d_proximo_control d,
      hm_sin_proximo_control = d_sin_proximo_control d\<rparr>"

definition actualizar_historial :: "historial_defaults \<Rightarrow> historial_medico \<Rightarrow> historial_medico" where
  "actualizar_historial d h =
     h\<lparr>hm_paciente_id := d_paciente_id d,
       hm_veterinario_id := Some (d_veterinario_id d),
       hm_diagnostico := d_diagnostico d,
       hm_tratamiento := d_tratamiento d,
       hm_notas := d_notas d,
       hm_peso := d_peso d,
       hm_temperatura := d_temperatura d,
       hm_examenes := d_examenes d,
       hm_imagenes := (case d_imagenes d of None \<Rightarrow> hm_imagenes h | Some i \<Rightarrow> Some i),
       hm_proximo_control := d_proximo_control d,
       hm_sin_proximo_control := d_sin_proximo_control d\<rparr>"

text \<open>
  \<open>HistorialMedico.objects.update_or_create(cita=cita, defaults=...)\<close>: the row of the
  appointment is fetched; none is created, one is updated in place, several raise
  \<open>MultipleObjectsReturned\<close>. Whether the database accepts the field values (column
  types, NOT NULL) is the parameter \<open>acepta\<close>; a rejected write raises a database error.
\<close>

definition update_or_create_historial ::
  "(historial_defaults \<Rightarrow> bool) \<Rightarrow> int \<Rightarrow> historial_defaults \<Rightarrow> historial_medico list
     \<Rightarrow> excepcion + historial_medico list" where
  "update_or_create_historial acepta cid d hs =
     (case filter (\<lambda>h. hm_cita_id h = Some cid) hs of
        [] \<Rightarrow> if acepta d then Inr (hs @ [crear_historial cid d]) else Inl DatabaseError
      | [_] \<Rightarrow>
          if acepta d
          then Inr (map (\<lambda>h. if hm_cita_id h = Some cid then actualizar_historial d h else h) hs)
          else Inl DatabaseError
      | _ # _ # _ \<Rightarrow> Inl MultipleObjectsReturned)"

subsection \<open>Stock and administration records\<close>

definition filtrar_cita :: "int \<Rightarrow> cita_farmaco list \<Rightarrow> cita_farmaco list" where
  "filtrar_cita cid rows = filter (\<lambda>r. cf_cita_id r = cid) rows"

definition existentes_de :: "cita_farmaco list \<Rightarrow> (int \<times> cita_farmaco) list" where
  "existentes_de registros = dict_of (map (\<lambda>admin. (cf_farmaco_id admin, admin)) registros)"

text \<open>
  \<open>ids_para_bloquear\<close> is a Python set; its iteration order is not specified. The model
  iterates it in one fixed order, which only decides which drug an error message names.
\<close>

definition ids_para_bloquear :: "(int \<times> cita_farmaco) list \<Rightarrow> (int \<times> int) list \<Rightarrow> int list" where
  "ids_para_bloquear existentes nuevos_map = remdups (dict_keys existentes @ dict_keys nuevos_map)"

definition farmacos_map_de :: "(int \<rightharpoonup> farmaco) \<Rightarrow> int \<Rightarrow> int list \<Rightarrow> (int \<rightharpoonup> farmaco)" where
  "farmacos_map_de fs suc ids fid =
     (if fid \<in> set ids
      then (case fs fid of
              None \<Rightarrow> None
            | Some f \<Rightarrow> if farmaco_sucursal_id f = suc then Some f else None)
      else None)"

definition delta_de :: "(int \<times> cita_farmaco) list \<Rightarrow> (int \<times> int) list \<Rightarrow> int \<Rightarrow> int" where
  "delta_de existentes nuevos_map fid =
     (let anterior_cantidad = (case dict_get existentes fid of None \<Rightarrow> 0 | Some anterior \<Rightarrow> cf_cantidad anterior);
          nueva_cantidad = (case dict_get nuevos_map fid of None \<Rightarrow> 0 | Some n \<Rightarrow> n)
      in nueva_cantidad - anterior_cantidad)"

fun verificar_stock ::
  "(int \<times> cita_farmaco) list \<Rightarrow> (int \<times> int) list \<Rightarrow> (int \<rightharpoonup> farmaco) \<Rightarrow> int list
     \<Rightarrow> excepcion + unit" where
  "verificar_stock existentes nuevos_map farmacos_map [] = Inr ()"
| "verificar_stock existentes nuevos_map farmacos_map (fid # ids) =
     (let delta = delta_de existentes nuevos_map fid
      in if delta > 0
         then (case farmacos_map fid of
                 None \<Rightarrow> Inl KeyError
               | Some f \<Rightarrow>
                   if farmaco_stock f < delta
                   then Inl (ValueError (Stock_insuficiente (farmaco_nombre f) (farmaco_stock f)))
                   else verificar_stock existentes nuevos_map farmacos_map ids)
         else verificar_stock existentes nuevos_map farmacos_map ids)"

text \<open>
  \<open>Farmaco.objects.filter(id=fid, sucursal=cita.sucursal).update(stock=F("stock") + n)\<close>;
  the subtraction of \<open>delta\<close> is the call with \<open>n = - delta\<close>.
\<close>

definition update_stock :: "int \<Rightarrow> int \<Rightarrow> int \<Rightarrow> (int \<rightharpoonup> farmaco) \<Rightarrow> (int \<rightharpoonup> farmaco)" where
  "update_stock suc fid n fs =
     (case fs fid of
        None \<Rightarrow> fs
      | Some f \<Rightarrow>
          if farmaco_sucursal_id f = suc then fs(fid \<mapsto> f\<lparr>farmaco_stock := farmaco_stock f + n\<rparr>)
          else fs)"

definition ajustar_stock ::
  "(int \<times> cita_farmaco) list \<Rightarrow> (int \<times> int) list \<Rightarrow> int \<Rightarrow> int list
     \<Rightarrow> (int \<rightharpoonup> farmaco) \<Rightarrow> (int \<rightharpoonup> farmaco)" where
  "ajustar_stock existentes nuevos_map suc ids fs =
     fold (\<lambda>fid fs'. let delta = delta_de existentes nuevos_map fid
                      in if delta \<noteq> 0 then update_stock suc fid (- delta) fs' else fs')
          ids fs"

definition mismo_registro :: "int \<Rightarrow> int \<Rightarrow> cita_farmaco \<Rightarrow> bool" where
  "mismo_registro cid fid r = (cf_cita_id r = cid \<and> cf_farmaco_id r = fid)"

definition guardar_administracion ::
  "int \<Rightarrow> (int \<times> cita_farmaco) list \<Rightarrow> int \<times> int \<Rightarrow> cita_farmaco list \<Rightarrow> cita_farmaco list" where
  "guardar_administracion cid existentes item rows =
     (case item of (fid, cantidad) \<Rightarrow>
        (case dict_get existentes fid of
           Some registro \<Rightarrow>
             if cf_cantidad registro \<noteq> cantidad
             then map (\<lambda>r. if mismo_registro cid fid r then r\<lparr>cf_cantidad := cantidad\<rparr> else r) rows
             else rows
         | None \<Rightarrow>
             rows @ [\<lparr>cf_cita_id = cid, cf_farmaco_id = fid, cf_cantidad = cantidad\<rparr>]))"

definition delete_registro :: "cita_farmaco \<Rightarrow> cita_farmaco list \<Rightarrow> cita_farmaco list" where
  "delete_registro registro rows =
     filter (\<lambda>r. \<not> mismo_registro (cf_cita_id registro) (cf_farmaco_id registro) r) rows"

definition eliminar_no_seleccionados ::
  "(int \<times> cita_farmaco) list \<Rightarrow> (int \<times> int) list \<Rightarrow> cita_farmaco list \<Rightarrow> cita_farmaco list" where
  "eliminar_no_seleccionados existentes nuevos_map rows =
     fold (\<lambda>(fid, registro) rows'.
             if dict_get nuevos_map fid = None then delete_registro registro rows' else rows')
          existentes rows"

text \<open>The branch \<open>if utilizo_farmacos:\<close> of the transaction.\<close>

definition registrar_farmacos :: "int \<Rightarrow> int \<Rightarrow> (int \<times> int) list \<Rightarrow> db \<Rightarrow> excepcion + db" where
  "registrar_farmacos cid suc seleccion s =
     (let existentes = existentes_de (filtrar_cita cid (cita_farmacos s));
          nuevos_map = dict_of seleccion;
          ids = ids_para_bloquear existentes nuevos_map
      in if ids = [] then Inr s
         else
           (let farmacos_map = farmacos_map_de (farmacos s) suc ids;
                faltantes = filter (\<lambda>fid. farmacos_map fid = None) ids
            in if faltantes \<noteq> [] then Inl (ValueError Farmaco_ya_no_pertenece_al_inventario)
               else
                 (case verificar_stock existentes nuevos_map farmacos_map ids of
                    Inl e \<Rightarrow> Inl e
                  | Inr _ \<Rightarrow>
                      Inr (s\<lparr>farmacos := ajustar_stock existentes nuevos_map suc ids (farmacos s),
                             cita_farmacos :=
                               eliminar_no_seleccionados existentes nuevos_map
                                 (fold (guardar_administracion cid existentes) nuevos_map
                                    (cita_farmacos s))\<rparr>))))"

text \<open>The branch \<open>else:\<close> of the transaction: medication use is disabled.\<close>

definition devolver_farmacos :: "int \<Rightarrow> int \<Rightarrow> db \<Rightarrow> db" where
  "devolver_farmacos cid suc s =
     fold (\<lambda>registro s'.
             s'\<lparr>farmacos := update_stock suc (cf_farmaco_id registro) (cf_cantidad registro) (farmacos s'),
                cita_farmacos := delete_registro registro (cita_farmacos s')\<rparr>)
          (filtrar_cita cid (cita_farmacos s)) s"

text \<open>The body of \<open>with transaction.atomic():\<close>.\<close>

definition cuerpo_transaccion ::
  "(historial_defaults \<Rightarrow> bool) \<Rightarrow> request \<Rightarrow> int \<Rightarrow> cita \<Rightarrow> db \<Rightarrow> excepcion + db" where
  "cuerpo_transaccion acepta req cid c s =
     (case update_or_create_historial acepta cid (defaults_de req c) (historiales s) of
        Inl e \<Rightarrow> Inl e
      | Inr hs \<Rightarrow>
          (let s1 = s\<lparr>historiales := hs,
                      citas := (citas s)(cid \<mapsto> c\<lparr>cita_estado := ''atendida''\<rparr>)\<rparr>
           in if truthy_str (post_utilizo_farmacos req)
              then registrar_farmacos cid (cita_sucursal_id c) (seleccion_post req) s1
              else Inr (devolver_farmacos cid (cita_sucursal_id c) s1)))"

text \<open>
  \<open>transaction.atomic()\<close>: when the body raises, the database is left as it was before
  the block and the exception propagates.
\<close>

definition atomic :: "(db \<Rightarrow> excepcion + db) \<Rightarrow> db \<Rightarrow> db \<times> excepcion option" where
  "atomic body s = (case body s of Inl e \<Rightarrow> (s, Some e) | Inr s' \<Rightarrow> (s', None))"

text \<open>
  The view. The result is the database after the request, the response, and the flash
  messages added. The template context of the rendered page is not part of the model.
\<close>

definition atender_cita ::
  "(historial_defaults \<Rightarrow> bool) \<Rightarrow> db \<Rightarrow> request \<Rightarrow> int
     \<Rightarrow> db \<times> respuesta \<times> (nivel \<times> mensaje) list" where
  "atender_cita acepta s req cita_id =
     (case citas s cita_id of
        None \<Rightarrow> (s, Http404, [])
      | Some c \<Rightarrow>
          if rol (req_user req) \<noteq> Some ''VET''
          then (s, Redirect_dashboard, [(Nivel_error, No_tienes_permiso_para_atender)])
          else if \<not> usuario_puede_gestionar_sucursal (req_user req) (Some (cita_sucursal_id c))
          then (s, Redirect_dashboard, [(Nivel_error, Citas_de_otra_sucursal)])
          else if truthy_id (cita_veterinario_id c) \<and>
                  cita_veterinario_id c \<noteq> Some (user_id (req_user req))
          then (s, Redirect_dashboard, [(Nivel_error, Asignada_a_otro_profesional)])
          else if req_method req \<noteq> ''POST''
          then (s, Render_atender_cita, [])
          else if mensajes_error req \<noteq> []
          then (s, Render_atender_cita, map (Pair Nivel_error) (mensajes_error req))
          else
            (case atomic (cuerpo_transaccion acepta req cita_id c) s of
               (s', None) \<Rightarrow>
                 (s', Redirect_detalle_cita cita_id, [(Nivel_success, Atendida_correctamente)])
             | (s', Some (ValueError m)) \<Rightarrow> (s', Render_atender_cita, [(Nivel_error, m)])
             | (s', Some e) \<Rightarrow> (s', Excepcion_no_capturada e, [])))"


text \<open>
  The three permission checks at the head of the view all pass: the user is a
  veterinarian, may manage the appointment's branch, and the appointment is not assigned
  to another professional.
\<close>

definition puede_atender :: "request \<Rightarrow> cita \<Rightarrow> bool" where
  "puede_atender req c =
     (rol (req_user req) = Some ''VET'' \<and>
      usuario_puede_gestionar_sucursal (req_user req) (Some (cita_sucursal_id c)) \<and>
      \<not> (truthy_id (cita_veterinario_id c) \<and>
         cita_veterinario_id c \<noteq> Some (user_id (req_user req))))"

text \<open>
  The quantity recorded for a drug on an appointment, the quantity posted for it (a later
  entry for the same drug replaces an earlier one), and the drugs of a branch's
  inventory.
\<close>

definition cantidad_registrada :: "cita_farmaco list \<Rightarrow> int \<Rightarrow> int \<Rightarrow> int" where
  "cantidad_registrada rows cid fid =
     sum_list (map cf_cantidad (filter (mismo_registro cid fid) rows))"

definition cantidad_seleccionada :: "request \<Rightarrow> int \<Rightarrow> int" where
  "cantidad_seleccionada req fid =
     (case map_of (rev (seleccion_post req)) fid of None \<Rightarrow> 0 | Some n \<Rightarrow> n)"

definition en_inventario :: "db \<Rightarrow> int \<Rightarrow> int \<Rightarrow> bool" where
  "en_inventario s suc fid =
     (case farmacos s fid of None \<Rightarrow> False | Some f \<Rightarrow> farmaco_sucursal_id f = suc)"

definition stock_de :: "db \<Rightarrow> int \<Rightarrow> int" where
  "stock_de s fid = (case farmacos s fid of None \<Rightarrow> 0 | Some f \<Rightarrow> farmaco_stock f)"


subsection \<open>A small clinic, used to run the view\<close>

text \<open>
  Branch 2 has the appointment 1 of patient 10, assigned to veterinarian 5, and stocks
  the drugs 7 and 8; drug 9 belongs to branch 3.
\<close>

definition veterinaria :: usuario where
  "veterinaria = \<lparr>user_id = 5, is_superuser = False, rol = Some ''VET'', sucursal_id = Some 2\<rparr>"

definition cita_ejemplo :: cita where
  "cita_ejemplo = \<lparr>cita_paciente_id = 10, cita_veterinario_id = Some 5, cita_sucursal_id = 2,
                    cita_estado = ''programada''\<rparr>"

definition farmacos_ejemplo :: "int \<rightharpoonup> farmaco" where
  "farmacos_ejemplo =
     [7 \<mapsto> \<lparr>farmaco_sucursal_id = 2, farmaco_nombre = ''Amoxicilina'', farmaco_stock = 10\<rparr>,
      8 \<mapsto> \<lparr>farmaco_sucursal_id = 2, farmaco_nombre = ''Meloxicam'', farmaco_stock = 3\<rparr>,
      9 \<mapsto> \<lparr>farmaco_sucursal_id = 3, farmaco_nombre = ''Ketamina'', farmaco_stock = 4\<rparr>]"

definition db_ejemplo :: "cita_farmaco list \<Rightarrow> db" where
  "db_ejemplo administraciones =
     \<lparr>citas = [1 \<mapsto> cita_ejemplo],
      farmacos = farmacos_ejemplo,
      cita_farmacos = administraciones,
      historiales = []\<rparr>"

definition post_ejemplo :: "string option \<Rightarrow> entrada list \<Rightarrow> request" where
  "post_ejemplo utilizo entradas =
     \<lparr>req_method = ''POST'',
      req_user = veterinaria,
      post_diagnostico = Some ''Otitis'',
      post_tratamiento = Some ''Limpieza'',
      post_notas = Some [],
      post_peso = Some ''12.5'',
      post_temperatura = Some [],
      post_examenes = Some [],
      post_proximo_control = Some [],
      post_sin_proximo_control = Some ''on'',
      post_adjuntar_estudios = None,
      post_utilizo_farmacos = utilizo,
      post_farmacos_utilizados = entradas,
      files_estudio_imagen = None\<rparr>"

definition acepta_ejemplo :: "historial_defaults \<Rightarrow> bool" where
  "acepta_ejemplo d =
     (d_diagnostico d \<noteq> None \<and> d_tratamiento d \<noteq> None \<and> d_notas d \<noteq> None \<and>
      d_examenes d \<noteq> None)"


text \<open>
  The integrity the column types declare: \<open>Farmaco.stock\<close> and \<open>CitaFarmaco.cantidad\<close>
  are \<open>PositiveIntegerField\<close>s, whose values are not negative.
\<close>

definition stock_no_negativo :: "db \<Rightarrow> bool" where
  "stock_no_negativo s = (\<forall>fid f. farmacos s fid = Some f \<longrightarrow> 0 \<le> farmaco_stock f)"

definition cantidades_no_negativas :: "db \<Rightarrow> bool" where
  "cantidades_no_negativas s = (\<forall>r \<in> set (cita_farmacos s). 0 \<le> cf_cantidad r)"


section \<open>Properties of the branch filter\<close>

lemma set_queryset_filter:
  "fila \<in> set (queryset_filter campo s qs) \<longleftrightarrow> fila \<in> set qs \<and> s \<in> set (campo fila)"
  by (auto simp: queryset_filter_def count_list_0_iff)

lemma queryset_filter_single:
  "\<forall>fila \<in> set qs. length (campo fila) \<le> 1 \<Longrightarrow>
   queryset_filter campo s qs = filter (\<lambda>fila. campo fila = [s]) qs"
proof (induction qs)
  case Nil
  then show ?case by (simp add: queryset_filter_def)
next
  case (Cons a qs)
  then have rest: "queryset_filter campo s qs = filter (\<lambda>fila. campo fila = [s]) qs"
    by simp
  from Cons.prems have "campo a = [] \<or> (\<exists>b. campo a = [b])"
    by (cases "campo a") (auto simp: length_Suc_conv)
  then have "replicate (count_list (campo a) s) a = (if campo a = [s] then [a] else [])"
    by auto
  with rest show ?case by (simp add: queryset_filter_def)
qed

text \<open>
  C3. \<open>_filtrar_por_sucursal\<close> returns the queryset unchanged for a superuser; unchanged
  when the user's role is not one of ADMIN, ADMIN_OP, VET; the empty queryset when the
  user has one of those roles but no assigned branch (a missing \<open>sucursal_id\<close>, or the
  falsy id 0); and otherwise the result of the filter on the user's branch: a row is in
  the result exactly when it is in the queryset and its branch column has the user's
  branch, and for a single-valued column the result is exactly the list of those rows.
\<close>

theorem filtrar_por_sucursal_casos:
  "(is_superuser user \<longrightarrow> filtrar_por_sucursal qs user campo = qs) \<and>
   ((\<forall>r. rol user = Some r \<longrightarrow> r \<notin> {''ADMIN'', ''ADMIN_OP'', ''VET''}) \<longrightarrow>
      filtrar_por_sucursal qs user campo = qs) \<and>
   (\<not> is_superuser user \<and> rol user = Some r \<and> r \<in> {''ADMIN'', ''ADMIN_OP'', ''VET''} \<and>
      (sucursal_id user = None \<or> sucursal_id user = Some 0) \<longrightarrow>
      filtrar_por_sucursal qs user campo = []) \<and>
   (\<not> is_superuser user \<and> rol user = Some r \<and> r \<in> {''ADMIN'', ''ADMIN_OP'', ''VET''} \<and>
      sucursal_id user = Some s \<and> s \<noteq> 0 \<longrightarrow>
      filtrar_por_sucursal qs user campo
        = concat (map (\<lambda>fila. replicate (count_list (campo fila) s) fila) qs) \<and>
      (\<forall>fila. fila \<in> set (filtrar_por_sucursal qs user campo) \<longleftrightarrow>
               fila \<in> set qs \<and> s \<in> set (campo fila)) \<and>
      ((\<forall>fila \<in> set qs. length (campo fila) \<le> 1) \<longrightarrow>
         filtrar_por_sucursal qs user campo = filter (\<lambda>fila. campo fila = [s]) qs))"
proof -
  have c1: "is_superuser user \<longrightarrow> filtrar_por_sucursal qs user campo = qs"
    by (simp add: filtrar_por_sucursal_def)
  have c2: "(\<forall>r. rol user = Some r \<longrightarrow> r \<notin> {''ADMIN'', ''ADMIN_OP'', ''VET''}) \<longrightarrow>
      filtrar_por_sucursal qs user campo = qs"
    by (auto simp: filtrar_por_sucursal_def roles_con_sucursal_def split: option.splits)
  have c3: "\<not> is_superuser user \<and> rol user = Some r \<and> r \<in> {''ADMIN'', ''ADMIN_OP'', ''VET''} \<and>
      (sucursal_id user = None \<or> sucursal_id user = Some 0) \<longrightarrow>
      filtrar_por_sucursal qs user campo = []"
    by (auto simp: filtrar_por_sucursal_def roles_con_sucursal_def truthy_id_def)
  have eq: "filtrar_por_sucursal qs user campo = queryset_filter campo s qs"
    if "\<not> is_superuser user" "rol user = Some r" "r \<in> {''ADMIN'', ''ADMIN_OP'', ''VET''}"
       "sucursal_id user = Some s" "s \<noteq> 0"
    using that by (auto simp: filtrar_por_sucursal_def roles_con_sucursal_def truthy_id_def)
  have c4: "\<not> is_superuser user \<and> rol user = Some r \<and> r \<in> {''ADMIN'', ''ADMIN_OP'', ''VET''} \<and>
      sucursal_id user = Some s \<and> s \<noteq> 0 \<longrightarrow>
      filtrar_por_sucursal qs user campo
        = concat (map (\<lambda>fila. replicate (count_list (campo fila) s) fila) qs) \<and>
      (\<forall>fila. fila \<in> set (filtrar_por_sucursal qs user campo) \<longleftrightarrow>
               fila \<in> set qs \<and> s \<in> set (campo fila)) \<and>
      ((\<forall>fila \<in> set qs. length (campo fila) \<le> 1) \<longrightarrow>
         filtrar_por_sucursal qs user campo = filter (\<lambda>fila. campo fila = [s]) qs)"
  proof (intro impI, elim conjE)
    assume h: "\<not> is_superuser user" "rol user = Some r" "r \<in> {''ADMIN'', ''ADMIN_OP'', ''VET''}"
       "sucursal_id user = Some s" "s \<noteq> 0"
    note e = eq [OF h]
    show "filtrar_por_sucursal qs user campo
        = concat (map (\<lambda>fila. replicate (count_list (campo fila) s) fila) qs) \<and>
      (\<forall>fila. fila \<in> set (filtrar_por_sucursal qs user campo) \<longleftrightarrow>
               fila \<in> set qs \<and> s \<in> set (campo fila)) \<and>
      ((\<forall>fila \<in> set qs. length (campo fila) \<le> 1) \<longrightarrow>
         filtrar_por_sucursal qs user campo = filter (\<lambda>fila. campo fila = [s]) qs)"
      unfolding e
      using set_queryset_filter [of _ campo s qs] queryset_filter_single [of qs campo s]
      by (simp add: queryset_filter_def)
  qed
  from c1 c2 c3 c4 show ?thesis by (intro conjI)
qed

theorem filtrar_por_sucursal_casos_witness:
  "filtrar_por_sucursal [(1::nat, [3]), (2, [4, 5, 4]), (3, [])]
     \<lparr>user_id = 7, is_superuser = True, rol = Some ''VET'', sucursal_id = None\<rparr> snd
     = [(1, [3]), (2, [4, 5, 4]), (3, [])] \<and>
   filtrar_por_sucursal [(1::nat, [3]), (2, [4, 5, 4]), (3, [])]
     \<lparr>user_id = 7, is_superuser = False, rol = Some ''OWNER'', sucursal_id = None\<rparr> snd
     = [(1, [3]), (2, [4, 5, 4]), (3, [])] \<and>
   filtrar_por_sucursal [(1::nat, [3]), (2, [4, 5, 4]), (3, [])]
     \<lparr>user_id = 7, is_superuser = False, rol = Some ''VET'', sucursal_id = Some 0\<rparr> snd
     = [] \<and>
   filtrar_por_sucursal [(1::nat, [3]), (2, [4, 5, 4]), (3, [])]
     \<lparr>user_id = 7, is_superuser = False, rol = Some ''ADMIN_OP'', sucursal_id = Some 4\<rparr> snd
     = [(2, [4, 5, 4]), (2, [4, 5, 4])] \<and>
   filtrar_por_sucursal [(1::nat, [3]), (2, [4]), (3, [])]
     \<lparr>user_id = 7, is_superuser = False, rol = Some ''ADMIN'', sucursal_id = Some 4\<rparr> snd
     = [(2, [4])]"
  using
    filtrar_por_sucursal_casos [of "\<lparr>user_id = 7, is_superuser = True, rol = Some ''VET'', sucursal_id = None\<rparr>"
      "[(1::nat, [3]), (2, [4, 5, 4]), (3, [])]" snd "''VET''" 4]
    filtrar_por_sucursal_casos [of "\<lparr>user_id = 7, is_superuser = False, rol = Some ''OWNER'', sucursal_id = None\<rparr>"
      "[(1::nat, [3]), (2, [4, 5, 4]), (3, [])]" snd "''VET''" 4]
    filtrar_por_sucursal_casos [of "\<lparr>user_id = 7, is_superuser = False, rol = Some ''VET'', sucursal_id = Some 0\<rparr>"
      "[(1::nat, [3]), (2, [4, 5, 4]), (3, [])]" snd "''VET''" 4]
    filtrar_por_sucursal_casos [of "\<lparr>user_id = 7, is_superuser = False, rol = Some ''ADMIN_OP'', sucursal_id = Some 4\<rparr>"
      "[(1::nat, [3]), (2, [4, 5, 4]), (3, [])]" snd "''ADMIN_OP''" 4]
    filtrar_por_sucursal_casos [of "\<lparr>user_id = 7, is_superuser = False, rol = Some ''ADMIN'', sucursal_id = Some 4\<rparr>"
      "[(1::nat, [3]), (2, [4]), (3, [])]" snd "''ADMIN''" 4]
  by simp


section \<open>Properties of the telephone helpers\<close>

lemma strip_Nil: "strip isspace [] = []"
  by (simp add: strip_def)

text \<open>
  C10. \<open>Cita.telefono_contacto\<close> returns only digit characters, namely the digits of the
  owner's phone, or of the owner user's phone when the owner's is empty; it returns the
  empty string when both phones are blank. \<open>Producto.telefono_whatsapp\<close> returns only
  digit characters for any stored contact phone.
\<close>

theorem telefono_solo_digitos:
  "(\<forall>c \<in> set (telefono_contacto isspace isdigit pt ut). isdigit c) \<and>
   telefono_contacto isspace isdigit pt ut =
     filter isdigit (strip isspace (if pt \<noteq> [] then pt else ut)) \<and>
   (strip isspace pt = [] \<and> strip isspace ut = [] \<longrightarrow>
      telefono_contacto isspace isdigit pt ut = []) \<and>
   (\<forall>c \<in> set (telefono_whatsapp isspace isdigit tc). isdigit c) \<and>
   telefono_whatsapp isspace isdigit tc =
     filter isdigit (strip isspace (case tc of None \<Rightarrow> [] | Some t \<Rightarrow> t))"
  by (auto simp: telefono_contacto_def telefono_whatsapp_def Let_def strip_Nil
           split: option.splits)

theorem telefono_solo_digitos_witness:
  "telefono_contacto ascii_isspace ascii_isdigit '''' '' +56 9 1234-5678 '' = ''56912345678'' \<and>
   list_all ascii_isdigit ''56912345678'' \<and>
   telefono_contacto ascii_isspace ascii_isdigit ''  '' ''   '' = '''' \<and>
   telefono_whatsapp ascii_isspace ascii_isdigit (Some ''(351) 530-1903'') = ''3515301903'' \<and>
   list_all ascii_isdigit ''3515301903''"
  using
    telefono_solo_digitos [of ascii_isspace ascii_isdigit "''''" "'' +56 9 1234-5678 ''"
      "Some ''(351) 530-1903''"]
    telefono_solo_digitos [of ascii_isspace ascii_isdigit "''  ''" "''   ''" None]
  by (simp add: strip_def ascii_isspace_def ascii_isdigit_def list_all_iff)


section \<open>Properties of the report export\<close>






lemma str_nat_2: "str_nat (Suc (Suc 0)) = ''2''"
  by (simp add: str_nat.simps digit_char_def)







section \<open>Auxiliary facts about dictionaries, stock and administration records\<close>

subsection \<open>Dictionaries\<close>

lemma fst_replace: "fst \<circ> (\<lambda>kv. if fst kv = k then (k, v) else kv) = fst"
  by (rule ext) simp

lemma map_of_replace_other:
  "x \<noteq> k \<Longrightarrow> map_of (map (\<lambda>kv. if fst kv = k then (k, v) else kv) d) x = map_of d x"
proof (induction d)
  case Nil
  then show ?case by simp
next
  case (Cons a d)
  obtain k' v' where a: "a = (k', v')" by (cases a)
  show ?case using Cons by (simp add: a)
qed

lemma map_of_replace_same:
  "k \<in> set (map fst d) \<Longrightarrow> map_of (map (\<lambda>kv. if fst kv = k then (k, v) else kv) d) k = Some v"
proof (induction d)
  case Nil
  then show ?case by simp
next
  case (Cons a d)
  obtain k' v' where a: "a = (k', v')" by (cases a)
  show ?case using Cons by (cases "k' = k") (simp_all add: a)
qed

lemma map_of_dict_set: "map_of (dict_set d k v) x = (if x = k then Some v else map_of d x)"
proof (cases "k \<in> set (map fst d)")
  case True
  then show ?thesis
    unfolding dict_set_def using map_of_replace_other [of x k v d] map_of_replace_same [of k d v]
    by (cases "x = k") simp_all
next
  case False
  then have "map_of d k = None" by (simp add: map_of_eq_None_iff)
  with False show ?thesis
    unfolding dict_set_def by (cases "x = k") (simp_all add: map_add_def split: option.splits)
qed

lemma keys_dict_set: "set (map fst (dict_set d k v)) = insert k (set (map fst d))"
proof (cases "k \<in> set (map fst d)")
  case True
  then have "map fst (dict_set d k v) = map fst d"
    unfolding dict_set_def by (simp add: fst_replace)
  with True show ?thesis by (simp only: insert_absorb)
next
  case False
  then show ?thesis unfolding dict_set_def by simp
qed

lemma distinct_dict_set: "distinct (map fst d) \<Longrightarrow> distinct (map fst (dict_set d k v))"
proof (cases "k \<in> set (map fst d)")
  case True
  then have "map fst (dict_set d k v) = map fst d"
    unfolding dict_set_def by (simp add: fst_replace)
  then show "distinct (map fst d) \<Longrightarrow> ?thesis" by simp
next
  case False
  then show "distinct (map fst d) \<Longrightarrow> ?thesis" unfolding dict_set_def by simp
qed

lemma dict_of_snoc: "dict_of (kvs @ [(k, v)]) = dict_set (dict_of kvs) k v"
  by (simp add: dict_of_def)

lemma dict_of_Nil: "dict_of [] = []"
  by (simp add: dict_of_def)

lemma distinct_dict_of: "distinct (map fst (dict_of kvs))"
proof (induction kvs rule: rev_induct)
  case Nil
  then show ?case by (simp add: dict_of_Nil)
next
  case (snoc x xs)
  obtain k v where x: "x = (k, v)" by (cases x)
  show ?case unfolding x dict_of_snoc using snoc by (rule distinct_dict_set)
qed

lemma keys_dict_of: "set (map fst (dict_of kvs)) = set (map fst kvs)"
proof (induction kvs rule: rev_induct)
  case Nil
  then show ?case by (simp add: dict_of_Nil)
next
  case (snoc x xs)
  obtain k v where x: "x = (k, v)" by (cases x)
  have "set (map fst (dict_of (xs @ [x]))) = insert k (set (map fst (dict_of xs)))"
    unfolding x dict_of_snoc by (rule keys_dict_set)
  also have "\<dots> = insert k (set (map fst xs))" by (simp only: snoc)
  finally show ?case by (simp add: x)
qed

lemma dict_get_dict_of: "dict_get (dict_of kvs) k = map_of (rev kvs) k"
proof (induction kvs rule: rev_induct)
  case Nil
  then show ?case by (simp add: dict_of_Nil dict_get_def)
next
  case (snoc x xs)
  obtain k' v where x: "x = (k', v)" by (cases x)
  show ?case using snoc unfolding x dict_of_snoc dict_get_def
    by (simp add: map_of_dict_set)
qed

lemma dict_get_None_iff: "dict_get (dict_of kvs) k = None \<longleftrightarrow> k \<notin> set (map fst kvs)"
  by (simp add: dict_get_dict_of map_of_eq_None_iff)

lemma dict_get_SomeD: "dict_get (dict_of kvs) k = Some v \<Longrightarrow> (k, v) \<in> set kvs"
  using map_of_SomeD [of "rev kvs" k v] by (simp add: dict_get_dict_of)

lemma dict_items_get: "(k, v) \<in> set (dict_of kvs) \<longleftrightarrow> dict_get (dict_of kvs) k = Some v"
  using distinct_dict_of [of kvs] by (simp add: dict_get_def)

lemma set_dict_keys: "set (dict_keys (dict_of kvs)) = set (map fst kvs)"
  unfolding dict_keys_def by (rule keys_dict_of)

lemma distinct_dict_keys: "distinct (dict_keys (dict_of kvs))"
  unfolding dict_keys_def by (rule distinct_dict_of)

subsection \<open>Stock\<close>

lemma update_stock_apply:
  "update_stock suc fid n fs x =
     (if x = fid
      then (case fs fid of
              None \<Rightarrow> None
            | Some f \<Rightarrow> if farmaco_sucursal_id f = suc
                        then Some (f\<lparr>farmaco_stock := farmaco_stock f + n\<rparr>) else Some f)
      else fs x)"
  by (simp add: update_stock_def split: option.splits)

lemma ajustar_stock_Nil: "ajustar_stock ex nv suc [] fs = fs"
  by (simp add: ajustar_stock_def)

lemma ajustar_stock_Cons:
  "ajustar_stock ex nv suc (a # ids) fs =
     ajustar_stock ex nv suc ids
       (if delta_de ex nv a \<noteq> 0 then update_stock suc a (- delta_de ex nv a) fs else fs)"
  by (simp add: ajustar_stock_def Let_def)

lemma ajustar_stock_notin:
  "x \<notin> set ids \<Longrightarrow> ajustar_stock ex nv suc ids fs x = fs x"
proof (induction ids arbitrary: fs)
  case Nil
  then show ?case by (simp add: ajustar_stock_Nil)
next
  case (Cons a ids)
  then have "x \<noteq> a" and "x \<notin> set ids" by auto
  then show ?case
    unfolding ajustar_stock_Cons using Cons.IH by (simp add: update_stock_apply)
qed

lemma ajustar_stock_in:
  "distinct ids \<Longrightarrow> x \<in> set ids \<Longrightarrow>
   ajustar_stock ex nv suc ids fs x =
     (case fs x of
        None \<Rightarrow> None
      | Some f \<Rightarrow> if farmaco_sucursal_id f = suc
                  then Some (f\<lparr>farmaco_stock := farmaco_stock f - delta_de ex nv x\<rparr>)
                  else Some f)"
proof (induction ids arbitrary: fs)
  case Nil
  then show ?case by simp
next
  case (Cons a ids)
  show ?case
  proof (cases "x = a")
    case True
    with Cons.prems have "x \<notin> set ids" by simp
    then show ?thesis
      unfolding ajustar_stock_Cons True [symmetric]
      by (simp add: ajustar_stock_notin update_stock_apply split: option.splits)
  next
    case False
    with Cons.prems have "distinct ids" and "x \<in> set ids" by simp_all
    then show ?thesis
      unfolding ajustar_stock_Cons using False by (simp add: Cons.IH update_stock_apply)
  qed
qed

lemma verificar_stock_Inr:
  "verificar_stock ex nv fm ids = Inr u \<Longrightarrow> x \<in> set ids \<Longrightarrow> 0 < delta_de ex nv x \<Longrightarrow>
   \<exists>f. fm x = Some f \<and> delta_de ex nv x \<le> farmaco_stock f"
proof (induction ids)
  case Nil
  then show ?case by simp
next
  case (Cons a ids)
  show ?case
  proof (cases "x = a")
    case True
    with Cons.prems show ?thesis
      by (simp add: Let_def split: option.splits if_splits)
  next
    case False
    with Cons.prems have "verificar_stock ex nv fm ids = Inr u" and "x \<in> set ids"
      by (simp_all add: Let_def split: option.splits if_splits)
    with Cons.IH Cons.prems(3) show ?thesis by simp
  qed
qed

lemma verificar_stock_casos:
  "\<forall>y \<in> set ids. fm y \<noteq> None \<Longrightarrow>
   verificar_stock ex nv fm ids = Inr () \<or>
   (\<exists>n d. verificar_stock ex nv fm ids = Inl (ValueError (Stock_insuficiente n d)))"
  by (induction ids) (auto simp: Let_def split: option.splits)

lemma verificar_stock_Inl:
  "\<forall>y \<in> set ids. fm y \<noteq> None \<Longrightarrow> x \<in> set ids \<Longrightarrow> fm x = Some f \<Longrightarrow>
   0 < delta_de ex nv x \<Longrightarrow> farmaco_stock f < delta_de ex nv x \<Longrightarrow>
   \<exists>n d. verificar_stock ex nv fm ids = Inl (ValueError (Stock_insuficiente n d))"
proof -
  assume all: "\<forall>y \<in> set ids. fm y \<noteq> None" and x: "x \<in> set ids" "fm x = Some f"
    and d: "0 < delta_de ex nv x" "farmaco_stock f < delta_de ex nv x"
  have "verificar_stock ex nv fm ids \<noteq> Inr ()"
  proof
    assume "verificar_stock ex nv fm ids = Inr ()"
    from verificar_stock_Inr [OF this x(1) d(1)] x(2) d(2) show False by simp
  qed
  with verificar_stock_casos [OF all] show ?thesis by blast
qed

subsection \<open>Administration records\<close>

lemma mismo_registro_cantidad [simp]:
  "mismo_registro cid fid (r\<lparr>cf_cantidad := c\<rparr>) = mismo_registro cid fid r"
  by (simp add: mismo_registro_def)

lemma filter_map_mismo:
  "filter (mismo_registro cid' fid)
     (map (\<lambda>r. if mismo_registro cid k r then r\<lparr>cf_cantidad := c\<rparr> else r) rows) =
   (if cid' = cid \<and> k = fid
    then map (\<lambda>r. r\<lparr>cf_cantidad := c\<rparr>) (filter (mismo_registro cid' fid) rows)
    else filter (mismo_registro cid' fid) rows)"
proof -
  let ?g = "\<lambda>r. if mismo_registro cid k r then r\<lparr>cf_cantidad := c\<rparr> else r"
  have pg: "mismo_registro cid' fid \<circ> ?g = mismo_registro cid' fid"
    by (rule ext) simp
  have swap: "filter (mismo_registro cid' fid) (map ?g rows)
                = map ?g (filter (mismo_registro cid' fid) rows)"
    by (simp only: filter_map pg)
  show ?thesis
  proof (cases "cid' = cid \<and> k = fid")
    case True
    have "map ?g (filter (mismo_registro cid' fid) rows)
            = map (\<lambda>r. r\<lparr>cf_cantidad := c\<rparr>) (filter (mismo_registro cid' fid) rows)"
      by (rule map_cong) (simp_all add: True)
    with True swap show ?thesis by simp
  next
    case False
    have "map ?g (filter (mismo_registro cid' fid) rows) = filter (mismo_registro cid' fid) rows"
    proof (rule map_idI)
      fix x assume "x \<in> set (filter (mismo_registro cid' fid) rows)"
      then have "mismo_registro cid' fid x" by simp
      with False have "\<not> mismo_registro cid k x"
        unfolding mismo_registro_def by blast
      then show "?g x = x" by simp
    qed
    with swap have "filter (mismo_registro cid' fid) (map ?g rows)
                      = filter (mismo_registro cid' fid) rows" by simp
    then show ?thesis using False by (simp only: if_False)
  qed
qed

lemma filter_guardar:
  "filter (mismo_registro cid' fid) (guardar_administracion cid ex (k, c) rows) =
     (if cid' = cid \<and> k = fid
      then (case dict_get ex fid of
              Some reg \<Rightarrow>
                if cf_cantidad reg \<noteq> c
                then map (\<lambda>r. r\<lparr>cf_cantidad := c\<rparr>) (filter (mismo_registro cid' fid) rows)
                else filter (mismo_registro cid' fid) rows
            | None \<Rightarrow>
                filter (mismo_registro cid' fid) rows @
                [\<lparr>cf_cita_id = cid, cf_farmaco_id = fid, cf_cantidad = c\<rparr>])
      else filter (mismo_registro cid' fid) rows)"
proof (cases "cid' = cid \<and> k = fid")
  case True
  then have eq: "cid' = cid" "k = fid" by simp_all
  have nuevo: "mismo_registro cid fid \<lparr>cf_cita_id = cid, cf_farmaco_id = fid, cf_cantidad = c\<rparr>"
    by (simp add: mismo_registro_def)
  show ?thesis
  proof (cases "dict_get ex fid")
    case None
    then show ?thesis
      unfolding guardar_administracion_def eq by (simp add: nuevo)
  next
    case (Some reg)
    then show ?thesis
      unfolding guardar_administracion_def eq by (simp add: filter_map_mismo)
  qed
next
  case False
  then have nuevo: "\<not> mismo_registro cid' fid \<lparr>cf_cita_id = cid, cf_farmaco_id = k, cf_cantidad = c\<rparr>"
    by (auto simp: mismo_registro_def)
  have rhs: "(if cid' = cid \<and> k = fid
      then (case dict_get ex fid of
              Some reg \<Rightarrow>
                if cf_cantidad reg \<noteq> c
                then map (\<lambda>r. r\<lparr>cf_cantidad := c\<rparr>) (filter (mismo_registro cid' fid) rows)
                else filter (mismo_registro cid' fid) rows
            | None \<Rightarrow>
                filter (mismo_registro cid' fid) rows @
                [\<lparr>cf_cita_id = cid, cf_farmaco_id = fid, cf_cantidad = c\<rparr>])
      else filter (mismo_registro cid' fid) rows) = filter (mismo_registro cid' fid) rows"
    using False by (simp only: if_False)
  have upd: "filter (mismo_registro cid' fid)
     (map (\<lambda>r. if mismo_registro cid k r then r\<lparr>cf_cantidad := c\<rparr> else r) rows)
      = filter (mismo_registro cid' fid) rows"
    using False by (simp only: filter_map_mismo if_False)
  show ?thesis
    unfolding rhs
  proof (cases "dict_get ex k")
    case None
    then show "filter (mismo_registro cid' fid) (guardar_administracion cid ex (k, c) rows)
        = filter (mismo_registro cid' fid) rows"
      unfolding guardar_administracion_def by (simp add: nuevo)
  next
    case (Some reg)
    then show "filter (mismo_registro cid' fid) (guardar_administracion cid ex (k, c) rows)
        = filter (mismo_registro cid' fid) rows"
      unfolding guardar_administracion_def by (simp add: upd)
  qed
qed

lemma filter_fold_guardar:
  "distinct (map fst items) \<Longrightarrow>
   filter (mismo_registro cid' fid) (fold (guardar_administracion cid ex) items rows) =
     (case map_of items fid of
        None \<Rightarrow> filter (mismo_registro cid' fid) rows
      | Some c \<Rightarrow>
          if cid' = cid
          then (case dict_get ex fid of
                  Some reg \<Rightarrow>
                    if cf_cantidad reg \<noteq> c
                    then map (\<lambda>r. r\<lparr>cf_cantidad := c\<rparr>) (filter (mismo_registro cid' fid) rows)
                    else filter (mismo_registro cid' fid) rows
                | None \<Rightarrow>
                    filter (mismo_registro cid' fid) rows @
                    [\<lparr>cf_cita_id = cid, cf_farmaco_id = fid, cf_cantidad = c\<rparr>])
          else filter (mismo_registro cid' fid) rows)"
proof (induction items arbitrary: rows)
  case Nil
  then show ?case by simp
next
  case (Cons item items)
  obtain k c where item: "item = (k, c)" by (cases item)
  from Cons.prems have dist: "distinct (map fst items)" and notin: "k \<notin> set (map fst items)"
    by (simp_all add: item)
  show ?case
  proof (cases "k = fid")
    case True
    with notin have none: "map_of items fid = None" by (simp add: map_of_eq_None_iff)
    have m: "map_of ((k, c) # items) fid = Some c" using True by simp
    show ?thesis
      unfolding item m fold_simps Cons.IH [OF dist] none option.case
      using True by (simp add: filter_guardar)
  next
    case False
    have m: "map_of ((k, c) # items) fid = map_of items fid" using False by simp
    have step: "filter (mismo_registro cid' fid) (guardar_administracion cid ex (k, c) rows)
                  = filter (mismo_registro cid' fid) rows"
      using False by (simp add: filter_guardar)
    show ?thesis
      unfolding item m fold_simps Cons.IH [OF dist] step by (rule refl)
  qed
qed

lemma cantidad_guardar:
  "\<forall>r \<in> set rows. 0 \<le> cf_cantidad r \<Longrightarrow> 0 \<le> c \<Longrightarrow>
   \<forall>r \<in> set (guardar_administracion cid ex (k, c) rows). 0 \<le> cf_cantidad r"
  unfolding guardar_administracion_def
  by (cases "dict_get ex k") auto

lemma cantidad_fold_guardar:
  "\<forall>r \<in> set rows. 0 \<le> cf_cantidad r \<Longrightarrow> \<forall>item \<in> set items. 0 \<le> snd item \<Longrightarrow>
   \<forall>r \<in> set (fold (guardar_administracion cid ex) items rows). 0 \<le> cf_cantidad r"
proof (induction items arbitrary: rows)
  case Nil
  then show ?case by simp
next
  case (Cons item items)
  obtain k c where item: "item = (k, c)" by (cases item)
  from Cons.prems(2) have c: "0 \<le> c" and rest: "\<forall>item \<in> set items. 0 \<le> snd item"
    by (simp_all add: item)
  from cantidad_guardar [OF Cons.prems(1) c]
  have "\<forall>r \<in> set (guardar_administracion cid ex (k, c) rows). 0 \<le> cf_cantidad r" .
  from Cons.IH [OF this rest] show ?case by (simp add: item)
qed

lemma filter_delete:
  "filter (mismo_registro cid fid) (delete_registro reg rows) =
     (if cf_cita_id reg = cid \<and> cf_farmaco_id reg = fid then []
      else filter (mismo_registro cid fid) rows)"
proof -
  have ff: "filter (mismo_registro cid fid) (delete_registro reg rows)
      = filter (\<lambda>r. \<not> mismo_registro (cf_cita_id reg) (cf_farmaco_id reg) r \<and>
                     mismo_registro cid fid r) rows"
    unfolding delete_registro_def by (simp only: filter_filter)
  show ?thesis
  proof (cases "cf_cita_id reg = cid \<and> cf_farmaco_id reg = fid")
    case True
    then have "filter (\<lambda>r. \<not> mismo_registro (cf_cita_id reg) (cf_farmaco_id reg) r \<and>
                     mismo_registro cid fid r) rows = []"
      by simp
    with True ff show ?thesis by simp
  next
    case False
    have "filter (\<lambda>r. \<not> mismo_registro (cf_cita_id reg) (cf_farmaco_id reg) r \<and>
                     mismo_registro cid fid r) rows = filter (mismo_registro cid fid) rows"
    proof (rule filter_cong [OF refl])
      fix x
      show "(\<not> mismo_registro (cf_cita_id reg) (cf_farmaco_id reg) x \<and> mismo_registro cid fid x)
              = mismo_registro cid fid x"
        using False unfolding mismo_registro_def by auto
    qed
    with ff have "filter (mismo_registro cid fid) (delete_registro reg rows)
                    = filter (mismo_registro cid fid) rows" by simp
    then show ?thesis using False by (simp only: if_False)
  qed
qed

lemma set_delete: "set (delete_registro reg rows) \<subseteq> set rows"
  unfolding delete_registro_def by auto

lemma eliminar_Nil: "eliminar_no_seleccionados [] nv rows = rows"
  by (simp add: eliminar_no_seleccionados_def)

lemma eliminar_Cons:
  "eliminar_no_seleccionados ((k, reg) # ex) nv rows =
     eliminar_no_seleccionados ex nv
       (if dict_get nv k = None then delete_registro reg rows else rows)"
  by (simp add: eliminar_no_seleccionados_def)

lemma filter_eliminar:
  "\<forall>(k, reg) \<in> set ex. cf_cita_id reg = cid \<and> cf_farmaco_id reg = k \<Longrightarrow>
   filter (mismo_registro cid' fid) (eliminar_no_seleccionados ex nv rows) =
     (if cid' = cid \<and> fid \<in> set (map fst ex) \<and> dict_get nv fid = None then []
      else filter (mismo_registro cid' fid) rows)"
proof (induction ex arbitrary: rows)
  case Nil
  then show ?case by (simp add: eliminar_Nil)
next
  case (Cons item ex)
  obtain k reg where item: "item = (k, reg)" by (cases item)
  from Cons.prems have reg: "cf_cita_id reg = cid" "cf_farmaco_id reg = k"
    and rest: "\<forall>(k, reg) \<in> set ex. cf_cita_id reg = cid \<and> cf_farmaco_id reg = k"
    by (simp_all add: item)
  show ?case
    unfolding item eliminar_Cons Cons.IH [OF rest]
    by (auto simp: filter_delete reg)
qed

lemma set_eliminar: "set (eliminar_no_seleccionados ex nv rows) \<subseteq> set rows"
proof (induction ex arbitrary: rows)
  case Nil
  then show ?case by (simp add: eliminar_Nil)
next
  case (Cons item ex)
  obtain k reg where item: "item = (k, reg)" by (cases item)
  have "set (eliminar_no_seleccionados (item # ex) nv rows) \<subseteq>
        set (if dict_get nv k = None then delete_registro reg rows else rows)"
    unfolding item eliminar_Cons by (rule Cons.IH)
  also have "\<dots> \<subseteq> set rows" using set_delete [of reg rows] by simp
  finally show ?case .
qed

subsection \<open>The medical record and the frame of the medication branches\<close>


lemma update_or_create_historial_ok:
  "acepta d \<Longrightarrow> length (filter (\<lambda>h. hm_cita_id h = Some cid) hs) \<le> 1 \<Longrightarrow>
   \<exists>hs'. update_or_create_historial acepta cid d hs = Inr hs'"
proof -
  assume a: "acepta d" and l: "length (filter (\<lambda>h. hm_cita_id h = Some cid) hs) \<le> 1"
  show ?thesis
  proof (cases "filter (\<lambda>h. hm_cita_id h = Some cid) hs")
    case Nil
    with a show ?thesis by (simp add: update_or_create_historial_def)
  next
    case (Cons h rest)
    with l have "rest = []" by simp
    with Cons a show ?thesis by (simp add: update_or_create_historial_def)
  qed
qed


lemma devolver_fold:
  "fold (\<lambda>registro s'.
           s'\<lparr>farmacos := update_stock suc (cf_farmaco_id registro) (cf_cantidad registro) (farmacos s'),
              cita_farmacos := delete_registro registro (cita_farmacos s')\<rparr>) regs s
   = s\<lparr>farmacos := fold (\<lambda>registro. update_stock suc (cf_farmaco_id registro) (cf_cantidad registro))
                       regs (farmacos s),
       cita_farmacos := fold delete_registro regs (cita_farmacos s)\<rparr>"
  by (induction regs arbitrary: s) simp_all

lemma devolver_farmacos_eq:
  "devolver_farmacos cid suc s =
     s\<lparr>farmacos := fold (\<lambda>registro. update_stock suc (cf_farmaco_id registro) (cf_cantidad registro))
                       (filtrar_cita cid (cita_farmacos s)) (farmacos s),
       cita_farmacos := fold delete_registro (filtrar_cita cid (cita_farmacos s)) (cita_farmacos s)\<rparr>"
  unfolding devolver_farmacos_def by (rule devolver_fold)



lemma atender_cita_POST:
  "citas s cita_id = Some c \<Longrightarrow> puede_atender req c \<Longrightarrow> req_method req = ''POST'' \<Longrightarrow>
   mensajes_error req = [] \<Longrightarrow>
   atender_cita acepta s req cita_id =
     (case cuerpo_transaccion acepta req cita_id c s of
        Inr s' \<Rightarrow> (s', Redirect_detalle_cita cita_id, [(Nivel_success, Atendida_correctamente)])
      | Inl (ValueError m) \<Rightarrow> (s, Render_atender_cita, [(Nivel_error, m)])
      | Inl e \<Rightarrow> (s, Excepcion_no_capturada e, []))"
  unfolding atender_cita_def puede_atender_def atomic_def
  by (simp split: sum.splits excepcion.splits)

subsection \<open>Returning the recorded units\<close>

lemma fold_delete_registro:
  "fold delete_registro regs rows =
     filter (\<lambda>r. \<forall>reg \<in> set regs. \<not> mismo_registro (cf_cita_id reg) (cf_farmaco_id reg) r) rows"
proof (induction regs arbitrary: rows)
  case Nil
  then show ?case by simp
next
  case (Cons reg regs)
  have "fold delete_registro (reg # regs) rows = fold delete_registro regs (delete_registro reg rows)"
    by simp
  also have "\<dots> = filter (\<lambda>r. \<forall>reg \<in> set regs. \<not> mismo_registro (cf_cita_id reg) (cf_farmaco_id reg) r)
                      (delete_registro reg rows)"
    by (rule Cons.IH)
  also have "\<dots> = filter (\<lambda>r. \<forall>reg' \<in> set (reg # regs).
                      \<not> mismo_registro (cf_cita_id reg') (cf_farmaco_id reg') r) rows"
    unfolding delete_registro_def filter_filter
    by (rule filter_cong [OF refl]) auto
  finally show ?case .
qed

lemma fold_delete_filtrar_cita:
  "fold delete_registro (filtrar_cita cid rows) rows = filter (\<lambda>r. cf_cita_id r \<noteq> cid) rows"
  unfolding fold_delete_registro
proof (rule filter_cong [OF refl])
  fix r assume r: "r \<in> set rows"
  show "(\<forall>reg \<in> set (filtrar_cita cid rows).
           \<not> mismo_registro (cf_cita_id reg) (cf_farmaco_id reg) r) = (cf_cita_id r \<noteq> cid)"
  proof
    assume a: "\<forall>reg \<in> set (filtrar_cita cid rows).
           \<not> mismo_registro (cf_cita_id reg) (cf_farmaco_id reg) r"
    show "cf_cita_id r \<noteq> cid"
    proof
      assume "cf_cita_id r = cid"
      with r have "r \<in> set (filtrar_cita cid rows)" by (simp add: filtrar_cita_def)
      with a have "\<not> mismo_registro (cf_cita_id r) (cf_farmaco_id r) r" by blast
      then show False by (simp add: mismo_registro_def)
    qed
  next
    assume "cf_cita_id r \<noteq> cid"
    then show "\<forall>reg \<in> set (filtrar_cita cid rows).
           \<not> mismo_registro (cf_cita_id reg) (cf_farmaco_id reg) r"
      by (auto simp: filtrar_cita_def mismo_registro_def)
  qed
qed

lemma fold_update_stock:
  "fold (\<lambda>registro. update_stock suc (cf_farmaco_id registro) (cf_cantidad registro)) regs fs x =
     (case fs x of
        None \<Rightarrow> None
      | Some f \<Rightarrow>
          if farmaco_sucursal_id f = suc
          then Some (f\<lparr>farmaco_stock := farmaco_stock f +
                        sum_list (map cf_cantidad (filter (\<lambda>r. cf_farmaco_id r = x) regs))\<rparr>)
          else Some f)"
proof (induction regs arbitrary: fs)
  case Nil
  then show ?case by (simp split: option.splits)
next
  case (Cons reg regs)
  have "fold (\<lambda>registro. update_stock suc (cf_farmaco_id registro) (cf_cantidad registro)) (reg # regs) fs x
      = fold (\<lambda>registro. update_stock suc (cf_farmaco_id registro) (cf_cantidad registro)) regs
          (update_stock suc (cf_farmaco_id reg) (cf_cantidad reg) fs) x"
    by simp
  also have "\<dots> = (case update_stock suc (cf_farmaco_id reg) (cf_cantidad reg) fs x of
        None \<Rightarrow> None
      | Some f \<Rightarrow>
          if farmaco_sucursal_id f = suc
          then Some (f\<lparr>farmaco_stock := farmaco_stock f +
                        sum_list (map cf_cantidad (filter (\<lambda>r. cf_farmaco_id r = x) regs))\<rparr>)
          else Some f)"
    by (rule Cons.IH)
  also have "\<dots> = (case fs x of
        None \<Rightarrow> None
      | Some f \<Rightarrow>
          if farmaco_sucursal_id f = suc
          then Some (f\<lparr>farmaco_stock := farmaco_stock f +
                        sum_list (map cf_cantidad (filter (\<lambda>r. cf_farmaco_id r = x) (reg # regs)))\<rparr>)
          else Some f)"
  proof (cases "x = cf_farmaco_id reg")
    case True
    then show ?thesis by (cases "fs (cf_farmaco_id reg)") (simp_all add: update_stock_apply)
  next
    case False
    then show ?thesis by (cases "fs x") (simp_all add: update_stock_apply)
  qed
  finally show ?case .
qed

lemma filter_farmaco_filtrar_cita:
  "filter (\<lambda>r. cf_farmaco_id r = x) (filtrar_cita cid rows) = filter (mismo_registro cid x) rows"
  unfolding filtrar_cita_def filter_filter mismo_registro_def ..

lemma devolver_farmacos_result:
  "cita_farmacos (devolver_farmacos cid suc s) = filter (\<lambda>r. cf_cita_id r \<noteq> cid) (cita_farmacos s) \<and>
   farmacos (devolver_farmacos cid suc s) x =
     (case farmacos s x of
        None \<Rightarrow> None
      | Some f \<Rightarrow>
          if farmaco_sucursal_id f = suc
          then Some (f\<lparr>farmaco_stock := farmaco_stock f + cantidad_registrada (cita_farmacos s) cid x\<rparr>)
          else Some f)"
proof -
  have reg: "cantidad_registrada (cita_farmacos s) cid x =
      sum_list (map cf_cantidad (filter (\<lambda>r. cf_farmaco_id r = x) (filtrar_cita cid (cita_farmacos s))))"
    by (simp add: cantidad_registrada_def filter_farmaco_filtrar_cita)
  show ?thesis
    unfolding reg by (simp add: devolver_farmacos_eq fold_delete_filtrar_cita fold_update_stock)
qed

lemma unique_registrada:
  "unique_together rows \<Longrightarrow> r \<in> set rows \<Longrightarrow>
   filter (mismo_registro (cf_cita_id r) (cf_farmaco_id r)) rows = [r]"
proof (induction rows)
  case Nil
  then show ?case by simp
next
  case (Cons a rows)
  from Cons.prems(1) have u: "unique_together rows"
    and na0: "(cf_cita_id a, cf_farmaco_id a) \<notin> (\<lambda>r. (cf_cita_id r, cf_farmaco_id r)) ` set rows"
    by (simp_all add: unique_together_def)
  have na: "\<not> (cf_cita_id x = cf_cita_id a \<and> cf_farmaco_id x = cf_farmaco_id a)"
    if "x \<in> set rows" for x
  proof
    assume "cf_cita_id x = cf_cita_id a \<and> cf_farmaco_id x = cf_farmaco_id a"
    then have eq: "(cf_cita_id a, cf_farmaco_id a) = (cf_cita_id x, cf_farmaco_id x)" by simp
    have "(cf_cita_id a, cf_farmaco_id a) \<in> (\<lambda>r. (cf_cita_id r, cf_farmaco_id r)) ` set rows"
      by (rule image_eqI [where f = "\<lambda>r. (cf_cita_id r, cf_farmaco_id r)" and x = x, OF eq that])
    with na0 show False by contradiction
  qed
  show ?case
  proof (cases "r = a")
    case True
    have "filter (mismo_registro (cf_cita_id a) (cf_farmaco_id a)) rows = []"
      using na by (auto simp: filter_empty_conv mismo_registro_def)
    moreover have "mismo_registro (cf_cita_id a) (cf_farmaco_id a) a"
      by (simp add: mismo_registro_def)
    ultimately show ?thesis using True by simp
  next
    case False
    with Cons.prems(2) have r: "r \<in> set rows" by simp
    from na [OF r] have "\<not> mismo_registro (cf_cita_id r) (cf_farmaco_id r) a"
      by (auto simp: mismo_registro_def)
    with Cons.IH [OF u r] show ?thesis by simp
  qed
qed



section \<open>Properties of visit completion\<close>



lemma ejemplo_cita: "citas (db_ejemplo rows) 1 = Some cita_ejemplo"
  by (simp add: db_ejemplo_def)

lemma ejemplo_puede_atender: "puede_atender (post_ejemplo utilizo entradas) cita_ejemplo"
  by (simp add: puede_atender_def post_ejemplo_def cita_ejemplo_def veterinaria_def
        usuario_puede_gestionar_sucursal_def roles_con_sucursal_def truthy_id_def)

lemma ejemplo_POST: "req_method (post_ejemplo utilizo entradas) = ''POST''"
  by (simp add: post_ejemplo_def)



lemma ejemplo_historial:
  "update_or_create_historial acepta_ejemplo 1 (defaults_de (post_ejemplo utilizo entradas) cita_ejemplo)
     (historiales (db_ejemplo rows))
   = Inr [crear_historial 1 (defaults_de (post_ejemplo utilizo entradas) cita_ejemplo)]"
  by (simp add: update_or_create_historial_def db_ejemplo_def acepta_ejemplo_def defaults_de_def
        post_ejemplo_def)





lemma ejemplo_tablas:
  "cita_farmacos (db_ejemplo rows) = rows"
  "farmacos (db_ejemplo rows) = farmacos_ejemplo"
  "historiales (db_ejemplo rows) = []"
  by (simp_all add: db_ejemplo_def)

lemma ejemplo_farmacos:
  "farmacos_ejemplo 7 = Some \<lparr>farmaco_sucursal_id = 2, farmaco_nombre = ''Amoxicilina'', farmaco_stock = 10\<rparr>"
  "farmacos_ejemplo 8 = Some \<lparr>farmaco_sucursal_id = 2, farmaco_nombre = ''Meloxicam'', farmaco_stock = 3\<rparr>"
  "farmacos_ejemplo 9 = Some \<lparr>farmaco_sucursal_id = 3, farmaco_nombre = ''Ketamina'', farmaco_stock = 4\<rparr>"
  by (simp_all add: farmacos_ejemplo_def)

lemma ejemplo_sucursal: "cita_sucursal_id cita_ejemplo = 2"
  by (simp add: cita_ejemplo_def)


subsection \<open>The dictionaries of the medication branch\<close>

lemma existentes_None:
  "dict_get (existentes_de (filtrar_cita cid rows)) fid = None \<longleftrightarrow>
   filter (mismo_registro cid fid) rows = []"
proof -
  have "dict_get (existentes_de (filtrar_cita cid rows)) fid = None \<longleftrightarrow>
        fid \<notin> set (map fst (map (\<lambda>admin. (cf_farmaco_id admin, admin)) (filtrar_cita cid rows)))"
    unfolding existentes_de_def by (rule dict_get_None_iff)
  also have "\<dots> \<longleftrightarrow> (\<forall>r \<in> set rows. \<not> mismo_registro cid fid r)"
    by (auto simp: filtrar_cita_def mismo_registro_def)
  also have "\<dots> \<longleftrightarrow> filter (mismo_registro cid fid) rows = []"
    by (simp add: filter_empty_conv)
  finally show ?thesis .
qed

lemma existentes_Some:
  "dict_get (existentes_de (filtrar_cita cid rows)) fid = Some reg \<Longrightarrow>
   reg \<in> set rows \<and> cf_cita_id reg = cid \<and> cf_farmaco_id reg = fid"
proof -
  assume "dict_get (existentes_de (filtrar_cita cid rows)) fid = Some reg"
  then have "(fid, reg) \<in> set (map (\<lambda>admin. (cf_farmaco_id admin, admin)) (filtrar_cita cid rows))"
    unfolding existentes_de_def by (rule dict_get_SomeD)
  then show ?thesis by (auto simp: filtrar_cita_def)
qed

lemma existentes_items:
  "\<forall>(k, reg) \<in> set (existentes_de (filtrar_cita cid rows)). cf_cita_id reg = cid \<and> cf_farmaco_id reg = k"
proof -
  have "cf_cita_id reg = cid \<and> cf_farmaco_id reg = k"
    if "(k, reg) \<in> set (existentes_de (filtrar_cita cid rows))" for k reg
  proof -
    from that have "dict_get (existentes_de (filtrar_cita cid rows)) k = Some reg"
      unfolding existentes_de_def by (simp only: dict_items_get)
    from existentes_Some [OF this] show ?thesis by simp
  qed
  then show ?thesis by blast
qed

lemma existentes_keys:
  "fid \<in> set (map fst (existentes_de (filtrar_cita cid rows))) \<longleftrightarrow>
   filter (mismo_registro cid fid) rows \<noteq> []"
proof -
  have "fid \<in> set (map fst (existentes_de (filtrar_cita cid rows))) \<longleftrightarrow>
        fid \<in> set (map fst (map (\<lambda>admin. (cf_farmaco_id admin, admin)) (filtrar_cita cid rows)))"
    unfolding existentes_de_def by (simp only: keys_dict_of)
  also have "\<dots> \<longleftrightarrow> dict_get (existentes_de (filtrar_cita cid rows)) fid \<noteq> None"
    unfolding existentes_de_def dict_get_None_iff by simp
  also have "\<dots> \<longleftrightarrow> filter (mismo_registro cid fid) rows \<noteq> []"
    by (simp only: existentes_None)
  finally show ?thesis .
qed

lemma existentes_unique:
  "unique_together rows \<Longrightarrow>
   dict_get (existentes_de (filtrar_cita cid rows)) fid = Some reg \<Longrightarrow>
   filter (mismo_registro cid fid) rows = [reg]"
proof -
  assume u: "unique_together rows"
    and g: "dict_get (existentes_de (filtrar_cita cid rows)) fid = Some reg"
  from existentes_Some [OF g] have "reg \<in> set rows" "cf_cita_id reg = cid" "cf_farmaco_id reg = fid"
    by simp_all
  with unique_registrada [OF u, of reg] show ?thesis by simp
qed

lemma anterior_cantidad_registrada:
  "unique_together rows \<Longrightarrow>
   (case dict_get (existentes_de (filtrar_cita cid rows)) fid of
      None \<Rightarrow> 0 | Some anterior \<Rightarrow> cf_cantidad anterior) = cantidad_registrada rows cid fid"
proof (cases "dict_get (existentes_de (filtrar_cita cid rows)) fid")
  case None
  then have "filter (mismo_registro cid fid) rows = []" by (simp only: existentes_None)
  with None show ?thesis by (simp add: cantidad_registrada_def)
next
  case (Some reg)
  assume "unique_together rows"
  from existentes_unique [OF this Some] Some show ?thesis
    by (simp add: cantidad_registrada_def)
qed

lemma delta_de_unique:
  "unique_together rows \<Longrightarrow>
   delta_de (existentes_de (filtrar_cita cid rows)) (dict_of (seleccion_post req)) fid =
     cantidad_seleccionada req fid - cantidad_registrada rows cid fid"
  unfolding delta_de_def Let_def cantidad_seleccionada_def
  by (simp add: anterior_cantidad_registrada dict_get_dict_of)

lemma set_ids_para_bloquear:
  "fid \<in> set (ids_para_bloquear (existentes_de (filtrar_cita cid rows)) (dict_of sel)) \<longleftrightarrow>
   filter (mismo_registro cid fid) rows \<noteq> [] \<or> fid \<in> set (map fst sel)"
proof -
  have "fid \<in> set (ids_para_bloquear (existentes_de (filtrar_cita cid rows)) (dict_of sel)) \<longleftrightarrow>
        fid \<in> set (map fst (existentes_de (filtrar_cita cid rows))) \<or>
        fid \<in> set (map fst (dict_of sel))"
    unfolding ids_para_bloquear_def dict_keys_def by simp
  then show ?thesis by (simp only: existentes_keys keys_dict_of)
qed

lemma distinct_ids_para_bloquear: "distinct (ids_para_bloquear ex nv)"
  unfolding ids_para_bloquear_def by simp

lemma delta_de_fuera:
  "fid \<notin> set (ids_para_bloquear (existentes_de (filtrar_cita cid rows)) (dict_of sel)) \<Longrightarrow>
   delta_de (existentes_de (filtrar_cita cid rows)) (dict_of sel) fid = 0"
proof -
  assume "fid \<notin> set (ids_para_bloquear (existentes_de (filtrar_cita cid rows)) (dict_of sel))"
  then have a: "filter (mismo_registro cid fid) rows = []" and b: "fid \<notin> set (map fst sel)"
    by (simp_all add: set_ids_para_bloquear)
  from a have "dict_get (existentes_de (filtrar_cita cid rows)) fid = None"
    by (simp only: existentes_None)
  moreover from b have "dict_get (dict_of sel) fid = None"
    unfolding dict_get_None_iff .
  ultimately show ?thesis by (simp add: delta_de_def)
qed

lemma seleccion_positiva:
  "(k, n) \<in> set (fst (leer_entradas es)) \<Longrightarrow> 0 < n"
proof (induction es rule: leer_entradas.induct)
  case 1
  then show ?case by simp
next
  case (2 es)
  then show ?case by (simp split: prod.splits)
next
  case (3 farmaco_id cantidad es)
  then show ?case by (auto split: prod.splits if_splits)
qed

subsection \<open>The result of the medication branch\<close>

lemma registrar_farmacos_Inr:
  assumes r: "registrar_farmacos cid suc sel s = Inr s2" and sel: "sel \<noteq> []"
  shows "(\<forall>fid \<in> set (ids_para_bloquear (existentes_de (filtrar_cita cid (cita_farmacos s))) (dict_of sel)).
            \<exists>f. farmacos s fid = Some f \<and> farmaco_sucursal_id f = suc) \<and>
         verificar_stock (existentes_de (filtrar_cita cid (cita_farmacos s))) (dict_of sel)
           (farmacos_map_de (farmacos s) suc
              (ids_para_bloquear (existentes_de (filtrar_cita cid (cita_farmacos s))) (dict_of sel)))
           (ids_para_bloquear (existentes_de (filtrar_cita cid (cita_farmacos s))) (dict_of sel)) = Inr () \<and>
         farmacos s2 =
           ajustar_stock (existentes_de (filtrar_cita cid (cita_farmacos s))) (dict_of sel) suc
             (ids_para_bloquear (existentes_de (filtrar_cita cid (cita_farmacos s))) (dict_of sel))
             (farmacos s) \<and>
         cita_farmacos s2 =
           eliminar_no_seleccionados (existentes_de (filtrar_cita cid (cita_farmacos s))) (dict_of sel)
             (fold (guardar_administracion cid (existentes_de (filtrar_cita cid (cita_farmacos s))))
                (dict_of sel) (cita_farmacos s))"
proof -
  define ex where "ex = existentes_de (filtrar_cita cid (cita_farmacos s))"
  define nv where "nv = dict_of sel"
  define ids where "ids = ids_para_bloquear ex nv"
  define fm where "fm = farmacos_map_de (farmacos s) suc ids"
  from sel obtain k n rest where "sel = (k, n) # rest" by (cases sel) auto
  then have "k \<in> set (map fst sel)" by simp
  then have "k \<in> set ids"
    unfolding ids_def ex_def nv_def by (simp only: set_ids_para_bloquear simp_thms)
  then have ne: "ids \<noteq> []" by auto
  have unfold: "registrar_farmacos cid suc sel s =
      (if filter (\<lambda>fid. fm fid = None) ids \<noteq> [] then Inl (ValueError Farmaco_ya_no_pertenece_al_inventario)
       else (case verificar_stock ex nv fm ids of
               Inl e \<Rightarrow> Inl e
             | Inr _ \<Rightarrow>
                 Inr (s\<lparr>farmacos := ajustar_stock ex nv suc ids (farmacos s),
                        cita_farmacos :=
                          eliminar_no_seleccionados ex nv
                            (fold (guardar_administracion cid ex) nv (cita_farmacos s))\<rparr>)))"
    unfolding registrar_farmacos_def Let_def ex_def [symmetric] nv_def [symmetric]
      ids_def [symmetric] fm_def [symmetric]
    using ne by (simp only: if_False)
  from r have falt: "filter (\<lambda>fid. fm fid = None) ids = []"
    unfolding unfold by (simp split: if_splits)
  with r have ver: "verificar_stock ex nv fm ids = Inr ()"
    and s2: "s2 = s\<lparr>farmacos := ajustar_stock ex nv suc ids (farmacos s),
                        cita_farmacos :=
                          eliminar_no_seleccionados ex nv
                            (fold (guardar_administracion cid ex) nv (cita_farmacos s))\<rparr>"
    unfolding unfold by (auto split: sum.splits)
  have inv: "\<exists>f. farmacos s fid = Some f \<and> farmaco_sucursal_id f = suc" if "fid \<in> set ids" for fid
  proof -
    from falt that have "fm fid \<noteq> None" by (simp add: filter_empty_conv)
    with that show ?thesis
      unfolding fm_def farmacos_map_de_def by (auto split: option.splits if_splits)
  qed
  from inv ver s2 show ?thesis
    unfolding fm_def ids_def ex_def nv_def by simp
qed

lemma registrar_farmacos_stock:
  assumes r: "registrar_farmacos cid suc sel s = Inr s2" and sel: "sel \<noteq> []"
  shows "farmacos s2 fid =
           (case farmacos s fid of
              None \<Rightarrow> None
            | Some f \<Rightarrow>
                Some (f\<lparr>farmaco_stock := farmaco_stock f -
                          delta_de (existentes_de (filtrar_cita cid (cita_farmacos s))) (dict_of sel) fid\<rparr>))"
proof -
  define ex where "ex = existentes_de (filtrar_cita cid (cita_farmacos s))"
  define ids where "ids = ids_para_bloquear ex (dict_of sel)"
  note R = registrar_farmacos_Inr [OF r sel, folded ex_def, folded ids_def]
  from R have inv: "\<forall>fid \<in> set ids. \<exists>f. farmacos s fid = Some f \<and> farmaco_sucursal_id f = suc"
    and fs: "farmacos s2 = ajustar_stock ex (dict_of sel) suc ids (farmacos s)"
    by simp_all
  have d: "distinct ids" unfolding ids_def by (rule distinct_ids_para_bloquear)
  show ?thesis
  proof (cases "fid \<in> set ids")
    case True
    with inv obtain f where f: "farmacos s fid = Some f" "farmaco_sucursal_id f = suc" by blast
    from ajustar_stock_in [OF d True, of ex "dict_of sel" suc "farmacos s"] f
    show ?thesis unfolding fs ex_def by simp
  next
    case False
    then have z: "delta_de ex (dict_of sel) fid = 0"
      unfolding ids_def ex_def by (rule delta_de_fuera)
    from ajustar_stock_notin [OF False, of ex "dict_of sel" suc "farmacos s"] z
    show ?thesis unfolding fs ex_def [symmetric] by (cases "farmacos s fid") simp_all
  qed
qed

lemma registrar_farmacos_suficiente:
  assumes r: "registrar_farmacos cid suc sel s = Inr s2" and sel: "sel \<noteq> []"
      and f: "farmacos s fid = Some f"
      and pos: "0 < delta_de (existentes_de (filtrar_cita cid (cita_farmacos s))) (dict_of sel) fid"
  shows "delta_de (existentes_de (filtrar_cita cid (cita_farmacos s))) (dict_of sel) fid \<le> farmaco_stock f"
proof -
  define ex where "ex = existentes_de (filtrar_cita cid (cita_farmacos s))"
  define ids where "ids = ids_para_bloquear ex (dict_of sel)"
  note R = registrar_farmacos_Inr [OF r sel, folded ex_def, folded ids_def]
  from R have ver: "verificar_stock ex (dict_of sel) (farmacos_map_de (farmacos s) suc ids) ids = Inr ()"
    by simp
  have "fid \<in> set ids"
  proof (rule ccontr)
    assume "fid \<notin> set ids"
    then have "delta_de ex (dict_of sel) fid = 0"
      unfolding ids_def ex_def by (rule delta_de_fuera)
    with pos show False unfolding ex_def by simp
  qed
  from verificar_stock_Inr [OF ver this] pos
  obtain g where g: "farmacos_map_de (farmacos s) suc ids fid = Some g"
    and le: "delta_de ex (dict_of sel) fid \<le> farmaco_stock g"
    unfolding ex_def by blast
  from g f have "g = f"
    unfolding farmacos_map_de_def by (simp split: if_splits)
  with le show ?thesis unfolding ex_def by simp
qed

lemma registrar_farmacos_rows:
  assumes r: "registrar_farmacos cid suc sel s = Inr s2" and sel: "sel \<noteq> []"
      and u: "unique_together (cita_farmacos s)"
  shows "filter (mismo_registro cid' fid) (cita_farmacos s2) =
           (if cid' = cid
            then (case map_of (rev sel) fid of
                    None \<Rightarrow> []
                  | Some n \<Rightarrow> [\<lparr>cf_cita_id = cid, cf_farmaco_id = fid, cf_cantidad = n\<rparr>])
            else filter (mismo_registro cid' fid) (cita_farmacos s))"
proof -
  define rows where "rows = cita_farmacos s"
  define ex where "ex = existentes_de (filtrar_cita cid rows)"
  define nv where "nv = dict_of sel"
  note R = registrar_farmacos_Inr [OF r sel, folded rows_def, folded ex_def, folded nv_def]
  from R have rows2: "cita_farmacos s2 =
      eliminar_no_seleccionados ex nv (fold (guardar_administracion cid ex) nv rows)"
    by simp
  have items: "\<forall>(k, reg) \<in> set ex. cf_cita_id reg = cid \<and> cf_farmaco_id reg = k"
    unfolding ex_def by (rule existentes_items)
  have dn: "distinct (map fst nv)" unfolding nv_def by (rule distinct_dict_of)
  have mo: "map_of nv fid = map_of (rev sel) fid"
    using dict_get_dict_of [of sel fid] unfolding nv_def dict_get_def .
  have gn: "dict_get nv fid = map_of (rev sel) fid"
    unfolding nv_def by (rule dict_get_dict_of)
  note E = filter_eliminar [OF items, of cid' fid nv "fold (guardar_administracion cid ex) nv rows"]
  note G = filter_fold_guardar [OF dn, of cid' fid cid ex rows]
  show ?thesis
  proof (cases "cid' = cid")
    case False
    with E G show ?thesis
      unfolding rows2 rows_def [symmetric] by (simp split: option.splits)
  next
    case True
    show ?thesis
    proof (cases "map_of (rev sel) fid")
      case None
      have "filter (mismo_registro cid fid) (cita_farmacos s2) = []"
      proof (cases "fid \<in> set (map fst ex)")
        case t: True
        with E None gn True show ?thesis unfolding rows2 by simp
      next
        case f: False
        then have "filter (mismo_registro cid fid) rows = []"
          unfolding ex_def by (simp only: existentes_keys not_not)
        with E G None mo f True show ?thesis unfolding rows2 by simp
      qed
      with None True show ?thesis by simp
    next
      case (Some n)
      with E gn True have keep: "filter (mismo_registro cid fid) (cita_farmacos s2)
          = filter (mismo_registro cid fid) (fold (guardar_administracion cid ex) nv rows)"
        unfolding rows2 by simp
      have "filter (mismo_registro cid fid) (fold (guardar_administracion cid ex) nv rows)
              = [\<lparr>cf_cita_id = cid, cf_farmaco_id = fid, cf_cantidad = n\<rparr>]"
      proof (cases "dict_get ex fid")
        case None
        then have "filter (mismo_registro cid fid) rows = []"
          unfolding ex_def by (simp only: existentes_None)
        with G None Some mo True show ?thesis by simp
      next
        case (Some reg)
        from existentes_unique [OF u [folded rows_def] Some [unfolded ex_def]]
        have one: "filter (mismo_registro cid fid) rows = [reg]" .
        from existentes_Some [OF Some [unfolded ex_def]]
        have reg: "cf_cita_id reg = cid" "cf_farmaco_id reg = fid" by simp_all
        have upd: "reg\<lparr>cf_cantidad := n\<rparr> = \<lparr>cf_cita_id = cid, cf_farmaco_id = fid, cf_cantidad = n\<rparr>"
          using reg by (cases reg) simp
        have same: "cf_cantidad reg = n \<Longrightarrow> reg = \<lparr>cf_cita_id = cid, cf_farmaco_id = fid, cf_cantidad = n\<rparr>"
          using reg by (cases reg) simp
        from G Some \<open>map_of (rev sel) fid = Some n\<close> mo True one upd same show ?thesis
          by (cases "cf_cantidad reg = n") simp_all
      qed
      with keep Some True show ?thesis by simp
    qed
  qed
qed

lemma registrar_farmacos_cantidades:
  assumes r: "registrar_farmacos cid suc sel s = Inr s2" and sel: "sel \<noteq> []"
      and pos: "\<forall>item \<in> set sel. 0 < snd item"
      and rows: "\<forall>r \<in> set (cita_farmacos s). 0 \<le> cf_cantidad r"
  shows "\<forall>r \<in> set (cita_farmacos s2). 0 \<le> cf_cantidad r"
proof -
  define ex where "ex = existentes_de (filtrar_cita cid (cita_farmacos s))"
  note R = registrar_farmacos_Inr [OF r sel, folded ex_def]
  from R have rows2: "cita_farmacos s2 =
      eliminar_no_seleccionados ex (dict_of sel)
        (fold (guardar_administracion cid ex) (dict_of sel) (cita_farmacos s))"
    by simp
  have "0 \<le> snd item" if "item \<in> set (dict_of sel)" for item
  proof -
    obtain k n where item: "item = (k, n)" by (cases item)
    from that have "dict_get (dict_of sel) k = Some n"
      unfolding item by (simp only: dict_items_get)
    from dict_get_SomeD [OF this] pos show ?thesis unfolding item by auto
  qed
  then have "\<forall>item \<in> set (dict_of sel). 0 \<le> snd item" by blast
  from cantidad_fold_guardar [OF rows this, of cid ex]
  have "\<forall>r \<in> set (fold (guardar_administracion cid ex) (dict_of sel) (cita_farmacos s)). 0 \<le> cf_cantidad r" .
  with set_eliminar [of ex "dict_of sel" "fold (guardar_administracion cid ex) (dict_of sel) (cita_farmacos s)"]
  show ?thesis unfolding rows2 by blast
qed

lemma seleccion_no_vacia:
  "mensajes_error req = [] \<Longrightarrow> truthy_str (post_utilizo_farmacos req) \<Longrightarrow> seleccion_post req \<noteq> []"
  by (auto simp: mensajes_error_def split: if_splits)

lemma cuerpo_transaccion_utilizo:
  assumes "truthy_str (post_utilizo_farmacos req)"
      and "cuerpo_transaccion acepta req cid c s = Inr s'"
  shows "\<exists>hs. update_or_create_historial acepta cid (defaults_de req c) (historiales s) = Inr hs \<and>
              registrar_farmacos cid (cita_sucursal_id c) (seleccion_post req)
                (s\<lparr>historiales := hs,
                   citas := (citas s)(cid \<mapsto> c\<lparr>cita_estado := ''atendida''\<rparr>)\<rparr>) = Inr s'"
  using assms unfolding cuerpo_transaccion_def
  by (auto simp: Let_def split: sum.splits)

lemma cuerpo_transaccion_sin_utilizo:
  assumes "\<not> truthy_str (post_utilizo_farmacos req)"
      and "cuerpo_transaccion acepta req cid c s = Inr s'"
  shows "\<exists>hs. update_or_create_historial acepta cid (defaults_de req c) (historiales s) = Inr hs \<and>
              s' = devolver_farmacos cid (cita_sucursal_id c)
                (s\<lparr>historiales := hs,
                   citas := (citas s)(cid \<mapsto> c\<lparr>cita_estado := ''atendida''\<rparr>)\<rparr>)"
  using assms unfolding cuerpo_transaccion_def
  by (auto simp: Let_def split: sum.splits)

lemma cantidad_seleccionada_en:
  "fid \<in> set (map fst (seleccion_post req)) \<Longrightarrow>
   map_of (rev (seleccion_post req)) fid = Some (cantidad_seleccionada req fid)"
proof -
  assume "fid \<in> set (map fst (seleccion_post req))"
  then have "map_of (rev (seleccion_post req)) fid \<noteq> None"
    by (simp add: map_of_eq_None_iff)
  then show ?thesis unfolding cantidad_seleccionada_def by auto
qed

lemma cantidad_seleccionada_fuera:
  "fid \<notin> set (map fst (seleccion_post req)) \<Longrightarrow>
   map_of (rev (seleccion_post req)) fid = None \<and> cantidad_seleccionada req fid = 0"
proof -
  assume "fid \<notin> set (map fst (seleccion_post req))"
  then have "map_of (rev (seleccion_post req)) fid = None"
    by (simp add: map_of_eq_None_iff)
  then show ?thesis unfolding cantidad_seleccionada_def by simp
qed

text \<open>
  C1. When a POST with medication use enabled completes the visit (the permission checks
  pass, the selection is valid and non-empty, and the transaction body does not raise),
  then for every drug id among the previously recorded and the newly selected ones: the
  drug is in the branch's inventory; its stock is changed by minus the delta, the delta
  being the selected quantity (0 when the drug is no longer selected) minus the previously
  recorded quantity (0 when there was none); when the drug is selected, the appointment
  has exactly one \<open>CitaFarmaco\<close> row for it, holding the selected quantity; when it is
  not selected, the appointment has no row for it.
\<close>

theorem atender_cita_con_farmacos:
  assumes "citas s cita_id = Some c"
      and "puede_atender req c"
      and "req_method req = ''POST''"
      and "mensajes_error req = []"
      and "truthy_str (post_utilizo_farmacos req)"
      and "cuerpo_transaccion acepta req cita_id c s = Inr s'"
      and "unique_together (cita_farmacos s)"
      and "filter (mismo_registro cita_id fid) (cita_farmacos s) \<noteq> [] \<or>
           fid \<in> set (map fst (seleccion_post req))"
  shows "atender_cita acepta s req cita_id =
           (s', Redirect_detalle_cita cita_id, [(Nivel_success, Atendida_correctamente)]) \<and>
         seleccion_post req \<noteq> [] \<and>
         en_inventario s (cita_sucursal_id c) fid \<and>
         farmacos s' fid =
           (case farmacos s fid of
              None \<Rightarrow> None
            | Some f \<Rightarrow>
                Some (f\<lparr>farmaco_stock := farmaco_stock f -
                          (cantidad_seleccionada req fid -
                           cantidad_registrada (cita_farmacos s) cita_id fid)\<rparr>)) \<and>
         stock_de s' fid =
           stock_de s fid -
             (cantidad_seleccionada req fid - cantidad_registrada (cita_farmacos s) cita_id fid) \<and>
         (fid \<in> set (map fst (seleccion_post req)) \<longrightarrow>
            filter (mismo_registro cita_id fid) (cita_farmacos s') =
              [\<lparr>cf_cita_id = cita_id, cf_farmaco_id = fid,
                cf_cantidad = cantidad_seleccionada req fid\<rparr>]) \<and>
         (fid \<notin> set (map fst (seleccion_post req)) \<longrightarrow>
            filter (mismo_registro cita_id fid) (cita_farmacos s') = [])"
proof -
  from atender_cita_POST [OF assms(1-4), of acepta] assms(6)
  have r: "atender_cita acepta s req cita_id =
           (s', Redirect_detalle_cita cita_id, [(Nivel_success, Atendida_correctamente)])"
    by simp
  from seleccion_no_vacia [OF assms(4,5)] have sel: "seleccion_post req \<noteq> []" .
  from cuerpo_transaccion_utilizo [OF assms(5,6)]
  obtain hs where reg: "registrar_farmacos cita_id (cita_sucursal_id c) (seleccion_post req)
                (s\<lparr>historiales := hs,
                   citas := (citas s)(cita_id \<mapsto> c\<lparr>cita_estado := ''atendida''\<rparr>)\<rparr>) = Inr s'"
    by blast
  define s1 where "s1 = s\<lparr>historiales := hs,
                   citas := (citas s)(cita_id \<mapsto> c\<lparr>cita_estado := ''atendida''\<rparr>)\<rparr>"
  have s1: "cita_farmacos s1 = cita_farmacos s" "farmacos s1 = farmacos s"
    by (simp_all add: s1_def)
  note reg1 = reg [folded s1_def]
  have u1: "unique_together (cita_farmacos s1)" using assms(7) by (simp add: s1)
  have d: "delta_de (existentes_de (filtrar_cita cita_id (cita_farmacos s))) (dict_of (seleccion_post req)) fid
            = cantidad_seleccionada req fid - cantidad_registrada (cita_farmacos s) cita_id fid"
    by (rule delta_de_unique [OF assms(7)])
  have fs: "farmacos s' fid =
           (case farmacos s fid of
              None \<Rightarrow> None
            | Some f \<Rightarrow>
                Some (f\<lparr>farmaco_stock := farmaco_stock f -
                          (cantidad_seleccionada req fid -
                           cantidad_registrada (cita_farmacos s) cita_id fid)\<rparr>))"
    using registrar_farmacos_stock [OF reg1 sel, of fid] unfolding s1 d .
  from assms(8) have "fid \<in> set (ids_para_bloquear (existentes_de (filtrar_cita cita_id (cita_farmacos s1)))
                        (dict_of (seleccion_post req)))"
    unfolding s1 by (simp only: set_ids_para_bloquear)
  with registrar_farmacos_Inr [OF reg1 sel]
  obtain f where f: "farmacos s1 fid = Some f" "farmaco_sucursal_id f = cita_sucursal_id c"
    by blast
  then have inv: "en_inventario s (cita_sucursal_id c) fid"
    unfolding en_inventario_def s1 by simp
  from fs f have st: "stock_de s' fid =
           stock_de s fid -
             (cantidad_seleccionada req fid - cantidad_registrada (cita_farmacos s) cita_id fid)"
    unfolding stock_de_def s1 by simp
  note rows = registrar_farmacos_rows [OF reg1 sel u1, of cita_id fid]
  have in_sel: "filter (mismo_registro cita_id fid) (cita_farmacos s') =
              [\<lparr>cf_cita_id = cita_id, cf_farmaco_id = fid,
                cf_cantidad = cantidad_seleccionada req fid\<rparr>]"
    if "fid \<in> set (map fst (seleccion_post req))"
    using rows cantidad_seleccionada_en [OF that] by simp
  have out_sel: "filter (mismo_registro cita_id fid) (cita_farmacos s') = []"
    if "fid \<notin> set (map fst (seleccion_post req))"
    using rows cantidad_seleccionada_fuera [OF that] by simp
  from r sel inv fs st in_sel out_sel show ?thesis by blast
qed

lemma ejemplo_con_farmacos: "truthy_str (post_utilizo_farmacos (post_ejemplo (Some ''on'') entradas))"
  by (simp add: post_ejemplo_def truthy_str_def)

lemma ejemplo_seleccion:
  "seleccion_post (post_ejemplo utilizo [Entrada 7 5]) = [(7, 5)]"
  by (simp add: seleccion_post_def post_ejemplo_def)

lemma ejemplo_sin_errores_7: "mensajes_error (post_ejemplo (Some ''on'') [Entrada 7 5]) = []"
  by (simp add: mensajes_error_def seleccion_post_def post_ejemplo_def)

lemma ejemplo_registrar:
  "\<exists>s'. cuerpo_transaccion acepta_ejemplo (post_ejemplo (Some ''on'') [Entrada 7 5]) 1 cita_ejemplo
      (db_ejemplo [\<lparr>cf_cita_id = 1, cf_farmaco_id = 7, cf_cantidad = 2\<rparr>,
                   \<lparr>cf_cita_id = 1, cf_farmaco_id = 8, cf_cantidad = 1\<rparr>]) = Inr s'"
  unfolding cuerpo_transaccion_def ejemplo_historial
  by (simp add: ejemplo_con_farmacos ejemplo_seleccion ejemplo_sucursal registrar_farmacos_def
        ejemplo_tablas existentes_de_def filtrar_cita_def dict_of_def dict_set_def
        ids_para_bloquear_def dict_keys_def farmacos_map_de_def ejemplo_farmacos
        delta_de_def dict_get_def Let_def)


theorem atender_cita_con_farmacos_witness:
  "fst (snd (atender_cita acepta_ejemplo
          (db_ejemplo [\<lparr>cf_cita_id = 1, cf_farmaco_id = 7, cf_cantidad = 2\<rparr>,
                       \<lparr>cf_cita_id = 1, cf_farmaco_id = 8, cf_cantidad = 1\<rparr>])
          (post_ejemplo (Some ''on'') [Entrada 7 5]) 1)) = Redirect_detalle_cita 1 \<and>
   stock_de (fst (atender_cita acepta_ejemplo
          (db_ejemplo [\<lparr>cf_cita_id = 1, cf_farmaco_id = 7, cf_cantidad = 2\<rparr>,
                       \<lparr>cf_cita_id = 1, cf_farmaco_id = 8, cf_cantidad = 1\<rparr>])
          (post_ejemplo (Some ''on'') [Entrada 7 5]) 1)) 7 = 7 \<and>
   filter (mismo_registro 1 7) (cita_farmacos (fst (atender_cita acepta_ejemplo
          (db_ejemplo [\<lparr>cf_cita_id = 1, cf_farmaco_id = 7, cf_cantidad = 2\<rparr>,
                       \<lparr>cf_cita_id = 1, cf_farmaco_id = 8, cf_cantidad = 1\<rparr>])
          (post_ejemplo (Some ''on'') [Entrada 7 5]) 1)))
     = [\<lparr>cf_cita_id = 1, cf_farmaco_id = 7, cf_cantidad = 5\<rparr>] \<and>
   stock_de (fst (atender_cita acepta_ejemplo
          (db_ejemplo [\<lparr>cf_cita_id = 1, cf_farmaco_id = 7, cf_cantidad = 2\<rparr>,
                       \<lparr>cf_cita_id = 1, cf_farmaco_id = 8, cf_cantidad = 1\<rparr>])
          (post_ejemplo (Some ''on'') [Entrada 7 5]) 1)) 8 = 4 \<and>
   filter (mismo_registro 1 8) (cita_farmacos (fst (atender_cita acepta_ejemplo
          (db_ejemplo [\<lparr>cf_cita_id = 1, cf_farmaco_id = 7, cf_cantidad = 2\<rparr>,
                       \<lparr>cf_cita_id = 1, cf_farmaco_id = 8, cf_cantidad = 1\<rparr>])
          (post_ejemplo (Some ''on'') [Entrada 7 5]) 1))) = []"
proof -
  let ?rows = "[\<lparr>cf_cita_id = 1, cf_farmaco_id = 7, cf_cantidad = 2\<rparr>,
                \<lparr>cf_cita_id = 1, cf_farmaco_id = 8, cf_cantidad = 1\<rparr>]"
  let ?req = "post_ejemplo (Some ''on'') [Entrada 7 5]"
  from ejemplo_registrar obtain s' where
    c: "cuerpo_transaccion acepta_ejemplo ?req 1 cita_ejemplo (db_ejemplo ?rows) = Inr s'"
    by blast
  have u: "unique_together (cita_farmacos (db_ejemplo ?rows))"
    by (simp add: unique_together_def ejemplo_tablas)
  have m7: "filter (mismo_registro 1 7) (cita_farmacos (db_ejemplo ?rows)) \<noteq> [] \<or>
            7 \<in> set (map fst (seleccion_post ?req))"
    by (simp add: ejemplo_seleccion)
  have m8: "filter (mismo_registro 1 8) (cita_farmacos (db_ejemplo ?rows)) \<noteq> [] \<or>
            8 \<in> set (map fst (seleccion_post ?req))"
    by (simp add: ejemplo_tablas mismo_registro_def)
  have q: "cantidad_seleccionada ?req 7 = 5" "cantidad_seleccionada ?req 8 = 0"
    "cantidad_registrada ?rows 1 7 = 2" "cantidad_registrada ?rows 1 8 = 1"
    by (simp_all add: cantidad_seleccionada_def ejemplo_seleccion cantidad_registrada_def
          mismo_registro_def)
  have st: "stock_de (db_ejemplo ?rows) 7 = 10" "stock_de (db_ejemplo ?rows) 8 = 3"
    by (simp_all add: stock_de_def ejemplo_tablas ejemplo_farmacos)
  note t7 = atender_cita_con_farmacos [OF ejemplo_cita [of ?rows]
      ejemplo_puede_atender [of "Some ''on''" "[Entrada 7 5]"]
      ejemplo_POST [of "Some ''on''" "[Entrada 7 5]"]
      ejemplo_sin_errores_7 ejemplo_con_farmacos [of "[Entrada 7 5]"] c u m7]
  note t8 = atender_cita_con_farmacos [OF ejemplo_cita [of ?rows]
      ejemplo_puede_atender [of "Some ''on''" "[Entrada 7 5]"]
      ejemplo_POST [of "Some ''on''" "[Entrada 7 5]"]
      ejemplo_sin_errores_7 ejemplo_con_farmacos [of "[Entrada 7 5]"] c u m8]
  from t7 have r: "atender_cita acepta_ejemplo (db_ejemplo ?rows) ?req 1 =
      (s', Redirect_detalle_cita 1, [(Nivel_success, Atendida_correctamente)])"
    by (rule conjunct1)
  from t7 have s7: "stock_de s' 7 = 7"
    and f7: "filter (mismo_registro 1 7) (cita_farmacos s') = [\<lparr>cf_cita_id = 1, cf_farmaco_id = 7, cf_cantidad = 5\<rparr>]"
    by (simp_all add: q st ejemplo_tablas ejemplo_seleccion)
  from t8 have s8: "stock_de s' 8 = 4"
    and f8: "filter (mismo_registro 1 8) (cita_farmacos s') = []"
    by (simp_all add: q st ejemplo_tablas ejemplo_seleccion)
  from s7 f7 s8 f8 show ?thesis unfolding r by simp
qed





lemma atender_cita_estado:
  "fst (atender_cita acepta s req cid) = s \<or>
   (\<exists>c. citas s cid = Some c \<and> mensajes_error req = [] \<and>
        cuerpo_transaccion acepta req cid c s = Inr (fst (atender_cita acepta s req cid)))"
proof (cases "citas s cid")
  case None
  then show ?thesis by (simp add: atender_cita_def)
next
  case (Some c)
  show ?thesis
  proof (cases "cuerpo_transaccion acepta req cid c s")
    case (Inl e)
    with Some have "fst (atender_cita acepta s req cid) = s"
      unfolding atender_cita_def atomic_def by (cases e) simp_all
    then show ?thesis by simp
  next
    case (Inr s')
    with Some have "fst (atender_cita acepta s req cid) = s \<or>
        (mensajes_error req = [] \<and> fst (atender_cita acepta s req cid) = s')"
      unfolding atender_cita_def atomic_def by simp
    with Some Inr show ?thesis by auto
  qed
qed

lemma cantidad_registrada_no_negativa:
  "\<forall>r \<in> set rows. 0 \<le> cf_cantidad r \<Longrightarrow> 0 \<le> cantidad_registrada rows cid fid"
  unfolding cantidad_registrada_def by (rule sum_list_nonneg) auto

lemma cuerpo_transaccion_no_negativo:
  assumes c: "cuerpo_transaccion acepta req cid c s = Inr s'"
      and me: "mensajes_error req = []"
      and st: "stock_no_negativo s"
      and ca: "cantidades_no_negativas s"
  shows "stock_no_negativo s' \<and> cantidades_no_negativas s'"
proof (cases "truthy_str (post_utilizo_farmacos req)")
  case True
  from seleccion_no_vacia [OF me True] have sel: "seleccion_post req \<noteq> []" .
  from cuerpo_transaccion_utilizo [OF True c]
  obtain hs where reg: "registrar_farmacos cid (cita_sucursal_id c) (seleccion_post req)
                (s\<lparr>historiales := hs,
                   citas := (citas s)(cid \<mapsto> c\<lparr>cita_estado := ''atendida''\<rparr>)\<rparr>) = Inr s'"
    by blast
  define s1 where "s1 = s\<lparr>historiales := hs,
                   citas := (citas s)(cid \<mapsto> c\<lparr>cita_estado := ''atendida''\<rparr>)\<rparr>"
  have s1: "cita_farmacos s1 = cita_farmacos s" "farmacos s1 = farmacos s"
    by (simp_all add: s1_def)
  note reg1 = reg [folded s1_def]
  have "0 \<le> farmaco_stock f'" if f': "farmacos s' fid = Some f'" for fid f'
  proof -
    define d where "d = delta_de (existentes_de (filtrar_cita cid (cita_farmacos s1)))
                          (dict_of (seleccion_post req)) fid"
    from registrar_farmacos_stock [OF reg1 sel, of fid] f'
    obtain f where f: "farmacos s1 fid = Some f" and eq: "f' = f\<lparr>farmaco_stock := farmaco_stock f - d\<rparr>"
      unfolding d_def by (cases "farmacos s1 fid") simp_all
    from st f have nn: "0 \<le> farmaco_stock f"
      unfolding stock_no_negativo_def s1 by blast
    show ?thesis
    proof (cases "0 < d")
      case True
      from registrar_farmacos_suficiente [OF reg1 sel f True [unfolded d_def]]
      have "d \<le> farmaco_stock f" unfolding d_def .
      then show ?thesis unfolding eq by simp
    next
      case False
      with nn show ?thesis unfolding eq by simp
    qed
  qed
  then have a: "stock_no_negativo s'" unfolding stock_no_negativo_def by blast
  have pos: "\<forall>item \<in> set (seleccion_post req). 0 < snd item"
  proof
    fix item assume i: "item \<in> set (seleccion_post req)"
    obtain k n where item: "item = (k, n)" by (cases item)
    from i have "(k, n) \<in> set (fst (leer_entradas (post_farmacos_utilizados req)))"
      unfolding item seleccion_post_def .
    from seleccion_positiva [OF this] show "0 < snd item" unfolding item by simp
  qed
  from ca have rows: "\<forall>r \<in> set (cita_farmacos s1). 0 \<le> cf_cantidad r"
    unfolding cantidades_no_negativas_def s1 .
  from registrar_farmacos_cantidades [OF reg1 sel pos rows]
  have b: "cantidades_no_negativas s'" unfolding cantidades_no_negativas_def .
  from a b show ?thesis ..
next
  case False
  from cuerpo_transaccion_sin_utilizo [OF False c]
  obtain hs where s': "s' = devolver_farmacos cid (cita_sucursal_id c)
                (s\<lparr>historiales := hs,
                   citas := (citas s)(cid \<mapsto> c\<lparr>cita_estado := ''atendida''\<rparr>)\<rparr>)"
    by blast
  define s1 where "s1 = s\<lparr>historiales := hs,
                   citas := (citas s)(cid \<mapsto> c\<lparr>cita_estado := ''atendida''\<rparr>)\<rparr>"
  have s1: "cita_farmacos s1 = cita_farmacos s" "farmacos s1 = farmacos s"
    by (simp_all add: s1_def)
  from ca have rows: "\<forall>r \<in> set (cita_farmacos s). 0 \<le> cf_cantidad r"
    unfolding cantidades_no_negativas_def .
  have "0 \<le> farmaco_stock f'" if f': "farmacos s' fid = Some f'" for fid f'
  proof -
    note D = devolver_farmacos_result [of cid "cita_sucursal_id c" s1 fid, THEN conjunct2]
    from D f' obtain f where f: "farmacos s fid = Some f"
      and eq: "f' = f\<lparr>farmaco_stock := farmaco_stock f + cantidad_registrada (cita_farmacos s) cid fid\<rparr> \<or> f' = f"
      unfolding s' s1_def [symmetric] s1
      by (cases "farmacos s fid") (auto split: if_splits)
    from st f have nn: "0 \<le> farmaco_stock f" unfolding stock_no_negativo_def by blast
    from cantidad_registrada_no_negativa [OF rows, of cid fid] nn eq show ?thesis by auto
  qed
  then have a: "stock_no_negativo s'" unfolding stock_no_negativo_def by blast
  from devolver_farmacos_result [of cid "cita_sucursal_id c" s1, THEN conjunct1]
  have "cita_farmacos s' = filter (\<lambda>r. cf_cita_id r \<noteq> cid) (cita_farmacos s)"
    unfolding s' s1_def [symmetric] s1 .
  with rows have b: "cantidades_no_negativas s'" unfolding cantidades_no_negativas_def by simp
  from a b show ?thesis ..
qed

text \<open>
  C8. \<open>atender_cita\<close> is the only code of the system that computes a stock (the two
  \<open>F("stock")\<close> updates); every other write of a stock stores a form value that the
  \<open>PositiveIntegerField\<close> validation has accepted. For every request, whatever its
  outcome, if all stocks and all recorded quantities are non-negative before, they are
  non-negative after: a subtraction of a positive delta is only reached when the check
  \<open>stock < delta\<close> has not raised, and every other update adds a non-negative amount.
\<close>

theorem atender_cita_stock_no_negativo:
  assumes "stock_no_negativo s" and "cantidades_no_negativas s"
  shows "stock_no_negativo (fst (atender_cita acepta s req cita_id)) \<and>
         cantidades_no_negativas (fst (atender_cita acepta s req cita_id))"
proof -
  from atender_cita_estado [of acepta s req cita_id]
  consider "fst (atender_cita acepta s req cita_id) = s"
    | c where "mensajes_error req = []"
        "cuerpo_transaccion acepta req cita_id c s = Inr (fst (atender_cita acepta s req cita_id))"
    by blast
  then show ?thesis
  proof cases
    case 1
    with assms show ?thesis by simp
  next
    case 2
    from cuerpo_transaccion_no_negativo [OF 2(2) 2(1) assms] show ?thesis .
  qed
qed

lemma ejemplo_no_negativo:
  "stock_no_negativo (db_ejemplo []) \<and> cantidades_no_negativas (db_ejemplo [])"
  by (auto simp: stock_no_negativo_def cantidades_no_negativas_def ejemplo_tablas
        farmacos_ejemplo_def split: if_splits)

lemma ejemplo_agotar:
  "cuerpo_transaccion acepta_ejemplo (post_ejemplo (Some ''on'') [Entrada 8 3]) 1 cita_ejemplo
      (db_ejemplo []) =
   Inr \<lparr>citas = [1 \<mapsto> cita_ejemplo\<lparr>cita_estado := ''atendida''\<rparr>],
        farmacos = farmacos_ejemplo
          (8 \<mapsto> \<lparr>farmaco_sucursal_id = 2, farmaco_nombre = ''Meloxicam'', farmaco_stock = 0\<rparr>),
        cita_farmacos = [\<lparr>cf_cita_id = 1, cf_farmaco_id = 8, cf_cantidad = 3\<rparr>],
        historiales = [crear_historial 1
           (defaults_de (post_ejemplo (Some ''on'') [Entrada 8 3]) cita_ejemplo)]\<rparr>"
  unfolding cuerpo_transaccion_def ejemplo_historial
  by (simp add: ejemplo_con_farmacos ejemplo_sucursal registrar_farmacos_def
        seleccion_post_def post_ejemplo_def truthy_str_def db_ejemplo_def
        existentes_de_def filtrar_cita_def dict_of_def dict_set_def
        ids_para_bloquear_def dict_keys_def farmacos_map_de_def ejemplo_farmacos
        delta_de_def dict_get_def Let_def ajustar_stock_def update_stock_def
        guardar_administracion_def eliminar_no_seleccionados_def)

theorem atender_cita_stock_no_negativo_witness:
  "fst (atender_cita acepta_ejemplo (db_ejemplo []) (post_ejemplo (Some ''on'') [Entrada 8 3]) 1)
     = \<lparr>citas = [1 \<mapsto> cita_ejemplo\<lparr>cita_estado := ''atendida''\<rparr>],
        farmacos = farmacos_ejemplo
          (8 \<mapsto> \<lparr>farmaco_sucursal_id = 2, farmaco_nombre = ''Meloxicam'', farmaco_stock = 0\<rparr>),
        cita_farmacos = [\<lparr>cf_cita_id = 1, cf_farmaco_id = 8, cf_cantidad = 3\<rparr>],
        historiales = [crear_historial 1
           (defaults_de (post_ejemplo (Some ''on'') [Entrada 8 3]) cita_ejemplo)]\<rparr> \<and>
   0 \<le> stock_de (fst (atender_cita acepta_ejemplo (db_ejemplo [])
                         (post_ejemplo (Some ''on'') [Entrada 8 3]) 1)) 8 \<and>
   stock_de (fst (atender_cita acepta_ejemplo (db_ejemplo [])
                         (post_ejemplo (Some ''on'') [Entrada 8 3]) 1)) 8 = 0"
proof -
  let ?req = "post_ejemplo (Some ''on'') [Entrada 8 3]"
  have me: "mensajes_error ?req = []"
    by (simp add: mensajes_error_def seleccion_post_def post_ejemplo_def)
  from atender_cita_POST [OF ejemplo_cita [of "[]"] ejemplo_puede_atender [of "Some ''on''" "[Entrada 8 3]"]
      ejemplo_POST [of "Some ''on''" "[Entrada 8 3]"] me, of acepta_ejemplo]
  have r: "fst (atender_cita acepta_ejemplo (db_ejemplo []) ?req 1)
     = \<lparr>citas = [1 \<mapsto> cita_ejemplo\<lparr>cita_estado := ''atendida''\<rparr>],
        farmacos = farmacos_ejemplo
          (8 \<mapsto> \<lparr>farmaco_sucursal_id = 2, farmaco_nombre = ''Meloxicam'', farmaco_stock = 0\<rparr>),
        cita_farmacos = [\<lparr>cf_cita_id = 1, cf_farmaco_id = 8, cf_cantidad = 3\<rparr>],
        historiales = [crear_historial 1 (defaults_de ?req cita_ejemplo)]\<rparr>"
    unfolding ejemplo_agotar by simp
  from atender_cita_stock_no_negativo [OF ejemplo_no_negativo [THEN conjunct1]
      ejemplo_no_negativo [THEN conjunct2], of acepta_ejemplo ?req 1]
  have "stock_no_negativo (fst (atender_cita acepta_ejemplo (db_ejemplo []) ?req 1))"
    by (rule conjunct1)
  then have nn: "0 \<le> stock_de (fst (atender_cita acepta_ejemplo (db_ejemplo []) ?req 1)) 8"
    unfolding stock_no_negativo_def stock_de_def by (auto split: option.splits)
  have z: "stock_de (fst (atender_cita acepta_ejemplo (db_ejemplo []) ?req 1)) 8 = 0"
    unfolding r by (simp add: stock_de_def)
  from r nn z show ?thesis by (intro conjI)
qed

end
